theory Spec2Isabelle
  imports Complex_Main "HOL-Library.Word"
begin

unbundle bit_operations_syntax

section \<open>Python exceptions and numpy arrays\<close>

text \<open>
  The service \<^verbatim>\<open>app/services/gpm_service.py\<close> reads a gridded precipitation file
  through xarray, crops it, and filters it with numpy. Every \<^verbatim>\<open>raise\<close> of the source
  and every exception of a library call is a value of \<open>error\<close>; a function that can raise
  returns \<open>error + 'a\<close> with \<open>Inl\<close> for the exception.

  \<^item> \<open>FileNotFound\<close>: \<^verbatim>\<open>raise FileNotFoundError("GPM File not found")\<close>;
  \<^item> \<open>OpenFailure\<close>: the exception of the second \<^verbatim>\<open>xr.open_dataset\<close>, which nothing catches;
  \<^item> \<open>VariableNotFound\<close>: \<^verbatim>\<open>raise ValueError("Variable not found")\<close>;
  \<^item> the others are the Python exceptions of the same name raised by indexing, unpacking,
    \<^verbatim>\<open>len\<close>, \<^verbatim>\<open>np.max\<close>, \<^verbatim>\<open>os.listdir\<close> and \<^verbatim>\<open>struct.pack\<close>.
\<close>

datatype error =
    FileNotFound
  | OpenFailure
  | VariableNotFound
  | KeyError
  | IndexError
  | ValueError
  | TypeError
  | OSError
  | StructError
  | OverflowError

text \<open>
  A numpy array is its shape and its buffer in row-major (C) order. A cell of an array
  read from a file is a floating-point number or NaN (xarray decodes a fill value to
  NaN); the numbers are modelled as reals, and infinities are left out. A float32 that
  the code produces itself, by \<^verbatim>\<open>astype(np.float32)\<close> or \<^verbatim>\<open>struct.pack\<close>, is modelled by its
  32-bit pattern.
\<close>

datatype cell = Num real | NaN

record 'a ndarray =
  shape :: "nat list"
  flat :: "'a list"

type_synonym float32 = "32 word"
type_synonym byte = "8 word"

definition wf_ndarray :: "'a ndarray \<Rightarrow> bool" where
  "wf_ndarray a = (length (flat a) = prod_list (shape a))"

definition array1 :: "'a list \<Rightarrow> 'a ndarray" where
  "array1 xs = \<lparr>shape = [length xs], flat = xs\<rparr>"

definition array2 :: "'a list list \<Rightarrow> nat \<Rightarrow> 'a ndarray" where
  \<comment> \<open>the 2-D array with the given rows, each of \<open>m\<close> cells\<close>
  "array2 rows m = \<lparr>shape = [length rows, m], flat = concat rows\<rparr>"

definition size_nd :: "'a ndarray \<Rightarrow> nat" where
  \<comment> \<open>\<^verbatim>\<open>a.size\<close>\<close>
  "size_nd a = prod_list (shape a)"

definition squeeze :: "'a ndarray \<Rightarrow> 'a ndarray" where
  \<comment> \<open>\<^verbatim>\<open>a.squeeze()\<close>: every axis of length 1 is dropped\<close>
  "squeeze a = \<lparr>shape = filter (\<lambda>n. n \<noteq> 1) (shape a), flat = flat a\<rparr>"

definition len_nd :: "'a ndarray \<Rightarrow> error + nat" where
  \<comment> \<open>\<^verbatim>\<open>len(a)\<close>: the first axis; a 0-d array is unsized\<close>
  "len_nd a = (case shape a of [] \<Rightarrow> Inl TypeError | n # _ \<Rightarrow> Inr n)"

definition at2 :: "'a ndarray \<Rightarrow> nat \<Rightarrow> nat \<Rightarrow> 'a" where
  \<comment> \<open>\<^verbatim>\<open>a[i, j]\<close> of a 2-D array, for indices in range\<close>
  "at2 a i j = flat a ! (i * (shape a ! 1) + j)"

definition row :: "'a ndarray \<Rightarrow> nat \<Rightarrow> 'a list" where
  \<comment> \<open>\<^verbatim>\<open>a[i].tolist()\<close> of a 2-D array\<close>
  "row a i = map (at2 a i) [0..<shape a ! 1]"

definition transpose_T :: "'a ndarray \<Rightarrow> 'a ndarray" where
  \<comment> \<open>\<^verbatim>\<open>a.T\<close>; the source applies it to 2-D arrays only\<close>
  "transpose_T a =
     (case shape a of
        [n, m] \<Rightarrow> \<lparr>shape = [m, n],
                   flat = concat (map (\<lambda>j. map (\<lambda>i. at2 a i j) [0..<n]) [0..<m])\<rparr>
      | _ \<Rightarrow> \<lparr>shape = rev (shape a), flat = flat a\<rparr>)"

definition cell_gt :: "cell \<Rightarrow> real \<Rightarrow> bool" where
  \<comment> \<open>\<^verbatim>\<open>c > t\<close> of two floats of one dtype: false of NaN\<close>
  "cell_gt c t = (case c of Num x \<Rightarrow> t < x | NaN \<Rightarrow> False)"

definition np_where_gt :: "(real \<Rightarrow> real) \<Rightarrow> cell ndarray \<Rightarrow> real \<Rightarrow> error + (nat \<times> nat) list" where
  \<comment> \<open>\<^verbatim>\<open>y_idxs, x_idxs = np.where(data > threshold)\<close>: numpy converts the Python float
      \<^verbatim>\<open>threshold\<close> to the dtype of the array (\<open>as_dtype\<close>: rounding to binary32 for a
      float32 array, the identity for a float64 one) and compares each cell with the
      converted value; the result is the index pairs of the cells above it in row-major
      order; unpacking into two names raises unless the array is 2-D\<close>
  "np_where_gt as_dtype a t =
     (case shape a of
        [n, m] \<Rightarrow> Inr (filter (\<lambda>(i, j). cell_gt (at2 a i j) (as_dtype t))
                          (List.product [0..<n] [0..<m]))
      | _ \<Rightarrow> Inl ValueError)"

definition index2 :: "'a ndarray \<Rightarrow> (nat \<times> nat) list \<Rightarrow> 'a list" where
  \<comment> \<open>\<^verbatim>\<open>data[y_idxs, x_idxs]\<close> for the index arrays \<^verbatim>\<open>np.where\<close> returned\<close>
  "index2 a idx = map (\<lambda>(i, j). at2 a i j) idx"

definition index0 :: "'a ndarray \<Rightarrow> nat list \<Rightarrow> error + 'a ndarray" where
  \<comment> \<open>\<^verbatim>\<open>a[idxs]\<close>: the sub-arrays along the first axis at the given indices\<close>
  "index0 a idxs =
     (case shape a of
        [] \<Rightarrow> Inl IndexError
      | n # rest \<Rightarrow>
          if list_all (\<lambda>i. i < n) idxs
          then Inr \<lparr>shape = length idxs # rest,
                    flat = concat (map (\<lambda>i. take (prod_list rest)
                                            (drop (i * prod_list rest) (flat a))) idxs)\<rparr>
          else Inl IndexError)"

definition astype :: "('a \<Rightarrow> 'b) \<Rightarrow> 'a ndarray \<Rightarrow> 'b ndarray" where
  \<comment> \<open>\<^verbatim>\<open>a.astype(np.float32)\<close>, the cast of one cell being a parameter\<close>
  "astype f a = \<lparr>shape = shape a, flat = map f (flat a)\<rparr>"

fun cell_max :: "cell \<Rightarrow> cell \<Rightarrow> cell" where
  \<comment> \<open>the maximum of two floats as \<^verbatim>\<open>np.max\<close> takes it: NaN if either is\<close>
  "cell_max (Num x) (Num y) = Num (max x y)"
| "cell_max (Num x) NaN = NaN"
| "cell_max NaN c = NaN"

definition np_max :: "cell ndarray \<Rightarrow> error + cell" where
  \<comment> \<open>\<^verbatim>\<open>np.max(a)\<close>: raises on a zero-size array, and is NaN when a cell is\<close>
  "np_max a = (case flat a of [] \<Rightarrow> Inl ValueError | x # xs \<Rightarrow> Inr (foldl cell_max x xs))"

definition nums :: "cell list \<Rightarrow> real list" where
  \<comment> \<open>the cells that are numbers\<close>
  "nums cs = concat (map (\<lambda>c. case c of Num x \<Rightarrow> [x] | NaN \<Rightarrow> []) cs)"

section \<open>Datasets and the environment\<close>

text \<open>
  An opened xarray dataset: its arrays by name (data variables and coordinates alike,
  as \<^verbatim>\<open>v in ds\<close> and \<^verbatim>\<open>ds[v]\<close> see them) and the names of its coordinates in the order
  \<^verbatim>\<open>ds.coords\<close> iterates them.
\<close>

record dataset =
  variables :: "(string \<times> cell ndarray) list"
  coord_names :: "string list"

definition contains :: "dataset \<Rightarrow> string \<Rightarrow> bool" where
  \<comment> \<open>\<^verbatim>\<open>v in ds\<close>\<close>
  "contains ds v = (v \<in> set (map fst (variables ds)))"

definition getitem :: "dataset \<Rightarrow> string \<Rightarrow> error + cell ndarray" where
  \<comment> \<open>\<^verbatim>\<open>ds[v]\<close>\<close>
  "getitem ds v = (case map_of (variables ds) v of None \<Rightarrow> Inl KeyError | Some a \<Rightarrow> Inr a)"

record bounds =
  toplat :: real
  bottomlat :: real
  leftlon :: real
  rightlon :: real

type_synonym slice = "real \<times> real"

text \<open>
  What the code reaches outside itself: the configured directory, the file system,
  xarray's \<^verbatim>\<open>open_dataset\<close> and \<^verbatim>\<open>sel\<close>, and the dtype of the arrays in the files, as
  the conversion \<open>as_grid_dtype\<close> of a Python float to it (rounding to binary32 for
  float32 grids, the identity for float64 ones). A library call that raises is \<open>None\<close>.
\<close>

record env =
  DATA_DIR :: string
  path_exists :: "string \<Rightarrow> bool"
  listdir :: "string \<Rightarrow> string list option"
  open_grid :: "string \<Rightarrow> dataset option"
  open_flat :: "string \<Rightarrow> dataset option"
  sel :: "dataset \<Rightarrow> string \<Rightarrow> slice \<Rightarrow> string \<Rightarrow> slice \<Rightarrow> dataset option"
  as_grid_dtype :: "real \<Rightarrow> real"

datatype event = OpenGrouped string | OpenFlat string | Close

definition path_join :: "string \<Rightarrow> string \<Rightarrow> string" where
  \<comment> \<open>\<^verbatim>\<open>os.path.join(a, b)\<close> on POSIX\<close>
  "path_join a b =
     (if b \<noteq> [] \<and> hd b = CHR ''/'' then b
      else if a = [] \<or> last a = CHR ''/'' then a @ b
      else a @ ''/'' @ b)"

definition open_dataset :: "env \<Rightarrow> string \<Rightarrow> dataset option \<times> event list" where
  \<comment> \<open>the \<^verbatim>\<open>try: open(group='Grid') except: open()\<close> of each entry point, with the
      attempts it made\<close>
  "open_dataset e p =
     (case open_grid e p of
        Some ds \<Rightarrow> (Some ds, [OpenGrouped p])
      | None \<Rightarrow> (open_flat e p, [OpenGrouped p, OpenFlat p]))"

section \<open>Schema resolver\<close>

definition candidates :: "string list" where
  "candidates = [''precipitationCal'', ''precipitation'', ''precip'']"

definition var_name :: "dataset \<Rightarrow> string option" where
  \<comment> \<open>\<^verbatim>\<open>next((v for v in candidates if v in ds), None)\<close>\<close>
  "var_name ds = find (contains ds) candidates"

definition lower_char :: "char \<Rightarrow> char" where
  "lower_char c =
     (let n = (of_char c :: nat) in if 65 \<le> n \<and> n \<le> 90 then char_of (n + 32) else c)"

definition lower :: "string \<Rightarrow> string" where
  "lower s = map lower_char s"

fun startswith :: "string \<Rightarrow> string \<Rightarrow> bool" where
  "startswith s [] = True"
| "startswith [] (p # ps) = False"
| "startswith (c # cs) (p # ps) = (c = p \<and> startswith cs ps)"

fun str_in :: "string \<Rightarrow> string \<Rightarrow> bool" where
  \<comment> \<open>\<^verbatim>\<open>sub in s\<close>\<close>
  "str_in sub [] = (sub = [])"
| "str_in sub (c # cs) = (startswith (c # cs) sub \<or> str_in sub cs)"

definition coord_name :: "string \<Rightarrow> dataset \<Rightarrow> string" where
  \<comment> \<open>\<^verbatim>\<open>next((k for k in ds.coords if 'lat' in k.lower()), 'lat')\<close>, and the same for \<^verbatim>\<open>'lon'\<close>\<close>
  "coord_name key ds =
     (case find (\<lambda>k. str_in key (lower k)) (coord_names ds) of
        Some k \<Rightarrow> k
      | None \<Rightarrow> key)"

section \<open>Bounds cropper\<close>

definition lat_slice :: "bounds \<Rightarrow> slice" where
  "lat_slice b = (min (bottomlat b) (toplat b), max (bottomlat b) (toplat b))"

definition lon_slice :: "bounds \<Rightarrow> slice" where
  "lon_slice b = (min (leftlon b) (rightlon b), max (leftlon b) (rightlon b))"

definition crop_or_full :: "env \<Rightarrow> dataset \<Rightarrow> string \<Rightarrow> string \<Rightarrow> string \<Rightarrow> bounds \<Rightarrow> dataset" where
  \<comment> \<open>the cropper of \<^verbatim>\<open>_extract_cloud_arrays\<close> and \<^verbatim>\<open>process_local_file\<close>: the bare
      \<^verbatim>\<open>except\<close> also catches the lookup of the variable in the selection\<close>
  "crop_or_full e ds vn latn lonn b =
     (case sel e ds latn (lat_slice b) lonn (lon_slice b) of
        None \<Rightarrow> ds
      | Some c \<Rightarrow>
          (case getitem c vn of
             Inl _ \<Rightarrow> ds
           | Inr a \<Rightarrow> if size_nd a = 0 then ds else c))"

definition crop_sel :: "env \<Rightarrow> dataset \<Rightarrow> string \<Rightarrow> string \<Rightarrow> bounds \<Rightarrow> dataset" where
  \<comment> \<open>the cropper of \<^verbatim>\<open>get_sparse_cloud_data\<close>: no test of the selection's size\<close>
  "crop_sel e ds latn lonn b =
     (case sel e ds latn (lat_slice b) lonn (lon_slice b) of
        None \<Rightarrow> ds
      | Some c \<Rightarrow> c)"

section \<open>Extraction and orientation\<close>

definition orient :: "cell ndarray \<Rightarrow> cell ndarray \<Rightarrow> cell ndarray \<Rightarrow> error + cell ndarray" where
  \<comment> \<open>\<^verbatim>\<open>if data.shape == (len(lons), len(lats)): data = data.T\<close>\<close>
  "orient data lats lons =
     (case len_nd lons of
        Inl x \<Rightarrow> Inl x
      | Inr nlon \<Rightarrow>
          (case len_nd lats of
             Inl x \<Rightarrow> Inl x
           | Inr nlat \<Rightarrow>
               Inr (if shape data = [nlon, nlat] then transpose_T data else data)))"

definition extract_grid ::
  "dataset \<Rightarrow> string \<Rightarrow> string \<Rightarrow> string \<Rightarrow> error + (cell ndarray \<times> cell ndarray \<times> cell ndarray)" where
  \<comment> \<open>the extraction step, the same text in the three entry points: the squeezed values
      of the variable, the two coordinate arrays, and the orientation test; the result is
      \<open>(lats, lons, data)\<close>\<close>
  "extract_grid dsc vn latn lonn =
     (case getitem dsc vn of
        Inl x \<Rightarrow> Inl x
      | Inr v \<Rightarrow>
          (case getitem dsc latn of
             Inl x \<Rightarrow> Inl x
           | Inr lats \<Rightarrow>
               (case getitem dsc lonn of
                  Inl x \<Rightarrow> Inl x
                | Inr lons \<Rightarrow>
                    (case orient (squeeze v) lats lons of
                       Inl x \<Rightarrow> Inl x
                     | Inr data \<Rightarrow> Inr (lats, lons, data)))))"

section \<open>Sparse filter\<close>

definition sparse_filter ::
  "(real \<Rightarrow> real) \<Rightarrow> (cell \<Rightarrow> float32) \<Rightarrow> cell ndarray \<Rightarrow> cell ndarray \<Rightarrow> cell ndarray \<Rightarrow> real
     \<Rightarrow> error + (float32 ndarray \<times> float32 ndarray \<times> float32 list \<times> cell)" where
  \<comment> \<open>step 5 of \<^verbatim>\<open>_extract_cloud_arrays\<close>; the result is
      \<open>(valid_lats, valid_lons, valid_rain, max_val)\<close>\<close>
  "sparse_filter as_dtype f32 data lats lons threshold =
     (case np_where_gt as_dtype data threshold of
        Inl x \<Rightarrow> Inl x
      | Inr idx \<Rightarrow>
          (let valid_rain = map f32 (index2 data idx) in
           case index0 lats (map fst idx) of
             Inl x \<Rightarrow> Inl x
           | Inr vlats \<Rightarrow>
               (case index0 lons (map snd idx) of
                  Inl x \<Rightarrow> Inl x
                | Inr vlons \<Rightarrow>
                    (case (if 0 < length valid_rain then np_max data else Inr (Num 0)) of
                       Inl x \<Rightarrow> Inl x
                     | Inr max_val \<Rightarrow>
                         Inr (astype f32 vlats, astype f32 vlons, valid_rain, max_val)))))"

section \<open>Entry points\<close>

text \<open>
  Each entry point returns what the Python function returns or raises, together with the
  dataset events it performed, in order: the open attempts and \<^verbatim>\<open>ds.close()\<close>. The cast
  to float32 (\<open>f32\<close>) and \<^verbatim>\<open>np.round\<close> (\<open>rnd\<close>) are parameters.
\<close>

definition extract_cloud_arrays ::
  "env \<Rightarrow> (cell \<Rightarrow> float32) \<Rightarrow> string \<Rightarrow> bounds \<Rightarrow> real
     \<Rightarrow> (error + (float32 ndarray \<times> float32 ndarray \<times> float32 list \<times> cell)) \<times> event list" where
  "extract_cloud_arrays e f32 filename b threshold =
     (let file_path = path_join (DATA_DIR e) filename in
      if \<not> path_exists e file_path then (Inl FileNotFound, [])
      else
        (case open_dataset e file_path of
           (None, tr) \<Rightarrow> (Inl OpenFailure, tr)
         | (Some ds, tr) \<Rightarrow>
             (let lat_name = coord_name ''lat'' ds;
                  lon_name = coord_name ''lon'' ds in
              case var_name ds of
                None \<Rightarrow> (Inl VariableNotFound, tr)
              | Some vn \<Rightarrow>
                  (case extract_grid (crop_or_full e ds vn lat_name lon_name b)
                          vn lat_name lon_name of
                     Inl x \<Rightarrow> (Inl x, tr)
                   | Inr (lats, lons, data) \<Rightarrow>
                       (case sparse_filter (as_grid_dtype e) f32 data lats lons threshold of
                          Inl x \<Rightarrow> (Inl x, tr)
                        | Inr r \<Rightarrow> (Inr r, tr @ [Close]))))))"

definition process_local_file ::
  "env \<Rightarrow> string \<Rightarrow> bounds
     \<Rightarrow> (error + (cell ndarray \<times> cell ndarray \<times> cell ndarray)) \<times> event list" where
  "process_local_file e filename b =
     (let file_path = path_join (DATA_DIR e) filename in
      if \<not> path_exists e file_path then (Inl FileNotFound, [])
      else
        (case open_dataset e file_path of
           (None, tr) \<Rightarrow> (Inl OpenFailure, tr)
         | (Some ds, tr) \<Rightarrow>
             (case var_name ds of
                None \<Rightarrow> (Inl VariableNotFound, tr)
              | Some vn \<Rightarrow>
                  (let lat_name = coord_name ''lat'' ds;
                       lon_name = coord_name ''lon'' ds in
                   case extract_grid (crop_or_full e ds vn lat_name lon_name b)
                          vn lat_name lon_name of
                     Inl x \<Rightarrow> (Inl x, tr)
                   | Inr r \<Rightarrow> (Inr r, tr @ [Close])))))"

record response_data =
  r_lats :: "cell ndarray"
  r_lons :: "cell ndarray"
  r_vals :: "cell list"
  stats_max :: cell
  stats_count :: nat

definition get_sparse_cloud_data ::
  "env \<Rightarrow> (nat \<Rightarrow> cell \<Rightarrow> cell) \<Rightarrow> string \<Rightarrow> bounds \<Rightarrow> real
     \<Rightarrow> (error + response_data) \<times> event list" where
  "get_sparse_cloud_data e rnd filename b threshold =
     (let file_path = path_join (DATA_DIR e) filename in
      if \<not> path_exists e file_path then (Inl FileNotFound, [])
      else
        (case open_dataset e file_path of
           (None, tr) \<Rightarrow> (Inl OpenFailure, tr)
         | (Some ds, tr) \<Rightarrow>
             (case var_name ds of
                None \<Rightarrow> (Inl VariableNotFound, tr)
              | Some vn \<Rightarrow>
                  (let lat_name = coord_name ''lat'' ds;
                       lon_name = coord_name ''lon'' ds in
                   case extract_grid (crop_sel e ds lat_name lon_name b)
                          vn lat_name lon_name of
                     Inl x \<Rightarrow> (Inl x, tr)
                   | Inr (lats, lons, data) \<Rightarrow>
                       (case np_where_gt (as_grid_dtype e) data threshold of
                          Inl x \<Rightarrow> (Inl x, tr)
                        | Inr idx \<Rightarrow>
                            (let valid_rain = index2 data idx in
                             case index0 lats (map fst idx) of
                               Inl x \<Rightarrow> (Inl x, tr)
                             | Inr valid_lats \<Rightarrow>
                                 (case index0 lons (map snd idx) of
                                    Inl x \<Rightarrow> (Inl x, tr)
                                  | Inr valid_lons \<Rightarrow>
                                      (case np_max data of
                                         Inl x \<Rightarrow> (Inl x, tr)
                                       | Inr mx \<Rightarrow>
                                           (Inr \<lparr>r_lats = astype (rnd 3) valid_lats,
                                                 r_lons = astype (rnd 3) valid_lons,
                                                 r_vals = map (rnd 2) valid_rain,
                                                 stats_max = mx,
                                                 stats_count = length valid_rain\<rparr>,
                                            tr @ [Close])))))))))"

definition closes :: "event list \<Rightarrow> nat" where
  \<comment> \<open>how many times the dataset was closed\<close>
  "closes tr = length (filter (\<lambda>ev. ev = Close) tr)"

section \<open>File listing\<close>

definition endswith :: "string \<Rightarrow> string \<Rightarrow> bool" where
  "endswith s suf = (length suf \<le> length s \<and> drop (length s - length suf) s = suf)"

definition extensions :: "string list" where
  "extensions = [''.HDF5'', ''.nc'', ''.nc4'']"

definition list_available_files :: "env \<Rightarrow> error + string list" where
  "list_available_files e =
     (if \<not> path_exists e (DATA_DIR e) then Inr []
      else
        (case listdir e (DATA_DIR e) of
           None \<Rightarrow> Inl OSError
         | Some fs \<Rightarrow> Inr (filter (\<lambda>f. list_ex (endswith f) extensions) fs)))"

section \<open>Binary encoder\<close>

definition le32 :: "32 word \<Rightarrow> byte list" where
  \<comment> \<open>the four bytes of a 32-bit value, least significant first\<close>
  "le32 w = [ucast w, ucast (drop_bit 8 w), ucast (drop_bit 16 w), ucast (drop_bit 24 w)]"

definition tobytes :: "float32 list \<Rightarrow> byte list" where
  \<comment> \<open>\<^verbatim>\<open>a.tobytes()\<close> of a float32 array with the given buffer, on a little-endian host\<close>
  "tobytes ws = concat (map le32 ws)"

definition struct_pack_If :: "(cell \<Rightarrow> float32 option) \<Rightarrow> nat \<Rightarrow> cell \<Rightarrow> error + byte list" where
  \<comment> \<open>\<^verbatim>\<open>struct.pack('<If', count, max_val)\<close>; \<open>pack_f\<close> is the conversion of a Python float
      to binary32, which raises beyond the range of the format\<close>
  "struct_pack_If pack_f count max_val =
     (if count < 2 ^ 32
      then (case pack_f max_val of
              None \<Rightarrow> Inl OverflowError
            | Some w \<Rightarrow> Inr (le32 (of_nat count) @ le32 w))
      else Inl StructError)"

definition bin_payload ::
  "(cell \<Rightarrow> float32 option) \<Rightarrow> float32 list \<Rightarrow> float32 list \<Rightarrow> float32 list \<Rightarrow> cell
     \<Rightarrow> error + byte list" where
  \<comment> \<open>option A of the handler: \<^verbatim>\<open>count = len(vals)\<close>, the header, and the three buffers\<close>
  "bin_payload pack_f lats lons vals max_val =
     (case struct_pack_If pack_f (length vals) max_val of
        Inl x \<Rightarrow> Inl x
      | Inr header \<Rightarrow> Inr (header @ tobytes lats @ tobytes lons @ tobytes vals))"

datatype response = Response200 "byte list" | Response500 error

definition get_gpm_data_bin ::
  "env \<Rightarrow> (cell \<Rightarrow> float32) \<Rightarrow> (cell \<Rightarrow> float32 option) \<Rightarrow> string \<Rightarrow> bounds \<Rightarrow> real \<Rightarrow> response" where
  \<comment> \<open>the handler \<^verbatim>\<open>get_gpm_data\<close> of the router at \<^verbatim>\<open>format == "bin"\<close>: any exception
      becomes a response with status 500\<close>
  "get_gpm_data_bin e f32 pack_f filename b threshold =
     (case fst (extract_cloud_arrays e f32 filename b threshold) of
        Inl x \<Rightarrow> Response500 x
      | Inr (lats, lons, vals, max_val) \<Rightarrow>
          (case bin_payload pack_f (flat lats) (flat lons) vals max_val of
             Inl x \<Rightarrow> Response500 x
           | Inr bs \<Rightarrow> Response200 bs))"

text \<open>
  The reader of the binary payload, as the specification describes the client: a 32-bit
  count, a 32-bit maximum, then three runs of \<open>count\<close> 32-bit values, all little-endian,
  and nothing after them. It is no code of the service; the encoder is compared with it.
\<close>

fun read_u32 :: "byte list \<Rightarrow> (32 word \<times> byte list) option" where
  "read_u32 (b0 # b1 # b2 # b3 # rest) =
     Some (ucast b0 OR push_bit 8 (ucast b1) OR push_bit 16 (ucast b2) OR push_bit 24 (ucast b3),
           rest)"
| "read_u32 _ = None"

fun read_f32s :: "nat \<Rightarrow> byte list \<Rightarrow> (float32 list \<times> byte list) option" where
  "read_f32s 0 bs = Some ([], bs)"
| "read_f32s (Suc n) bs =
     (case read_u32 bs of
        None \<Rightarrow> None
      | Some (w, rest) \<Rightarrow>
          (case read_f32s n rest of
             None \<Rightarrow> None
           | Some (ws, rest') \<Rightarrow> Some (w # ws, rest')))"

definition decode_bin :: "byte list \<Rightarrow> (nat \<times> float32 \<times> float32 list \<times> float32 list \<times> float32 list) option" where
  "decode_bin bs =
     (case read_u32 bs of
        None \<Rightarrow> None
      | Some (c, r1) \<Rightarrow>
          (case read_u32 r1 of
             None \<Rightarrow> None
           | Some (mx, r2) \<Rightarrow>
               (case read_f32s (unat c) r2 of
                  None \<Rightarrow> None
                | Some (lats, r3) \<Rightarrow>
                    (case read_f32s (unat c) r3 of
                       None \<Rightarrow> None
                     | Some (lons, r4) \<Rightarrow>
                         (case read_f32s (unat c) r4 of
                            None \<Rightarrow> None
                          | Some (vals, r5) \<Rightarrow>
                              if r5 = [] then Some (unat c, mx, lats, lons, vals) else None)))))"

section \<open>Corner-swapped boxes\<close>

definition swap_tb :: "bounds \<Rightarrow> bounds" where
  "swap_tb b = b\<lparr>toplat := bottomlat b, bottomlat := toplat b\<rparr>"

definition swap_lr :: "bounds \<Rightarrow> bounds" where
  "swap_lr b = b\<lparr>leftlon := rightlon b, rightlon := leftlon b\<rparr>"

section \<open>Sample inputs\<close>

text \<open>
  A small data directory. \<open>a.nc\<close> opens in the grouped layout and holds the field
  \<open>precipitation\<close> with axes (time, lon, lat) of lengths (1, 3, 2); \<open>both.nc\<close> opens
  only in the flat layout and holds two of the candidate names; \<open>novar.nc\<close> holds none of
  them; \<open>bad.nc\<close> exists and opens in neither layout. The answer of \<^verbatim>\<open>ds.sel\<close> is a
  parameter of the sample. The grids are float32.
\<close>

definition f32_sample :: "cell \<Rightarrow> float32" where
  \<comment> \<open>the binary32 patterns of the numbers that occur in the samples, and of NaN\<close>
  "f32_sample c =
     (case c of
        NaN \<Rightarrow> 0x7FC00000
      | Num x \<Rightarrow>
          if x = 1 then 0x3F800000 else if x = 2 then 0x40000000 else if x = 3 then 0x40400000
          else if x = 5 then 0x40A00000 else if x = 6 then 0x40C00000 else if x = 7 then 0x40E00000
          else if x = 10 then 0x41200000 else if x = 11 then 0x41300000
          else if x = 100 then 0x42C80000 else if x = 101 then 0x42CA0000
          else if x = 102 then 0x42CC0000 else if x = 13421773 / 134217728 then 0x3DCCCCCD
          else 0)"

definition pack_f_sample :: "cell \<Rightarrow> float32 option" where
  "pack_f_sample x = Some (f32_sample x)"

definition as_f32_sample :: "real \<Rightarrow> real" where
  \<comment> \<open>the conversion to binary32 at the thresholds of the samples: 2 and 7 are binary32
      numbers, the binary32 number nearest to 0.1 is \<open>13421773 / 2 ^ 27\<close>, above it, and
      the one nearest to 16777219 is 16777220 (the spacing is 2 from \<open>2 ^ 24\<close> on, and
      the tie goes to the even significand)\<close>
  "as_f32_sample t =
     (if t = 1 / 10 then 13421773 / 134217728 else if t = 16777219 then 16777220 else t)"

definition ds_lonlat :: dataset where
  "ds_lonlat =
     \<lparr>variables =
        [(''precipitation'', \<lparr>shape = [1, 3, 2], flat = map Num [1, 5, 2, 6, 3, 7]\<rparr>),
         (''time'', array1 (map Num [0])),
         (''lon'', array1 (map Num [100, 101, 102])),
         (''lat'', array1 (map Num [10, 11]))],
      coord_names = [''time'', ''lon'', ''lat'']\<rparr>"

definition ds_both :: dataset where
  "ds_both =
     \<lparr>variables =
        [(''precipitation'', array2 [map Num [1, 2], map Num [3, 5]] 2),
         (''precipitationCal'', array2 [map Num [1, 3], map Num [5, 7]] 2),
         (''lat'', array1 (map Num [10, 11])),
         (''lon'', array1 (map Num [100, 101]))],
      coord_names = [''lat'', ''lon'']\<rparr>"

definition ds_novar :: dataset where
  "ds_novar =
     \<lparr>variables =
        [(''HQprecipitation'', array2 [map Num [1, 2], map Num [3, 5]] 2),
         (''lat'', array1 (map Num [10, 11])),
         (''lon'', array1 (map Num [100, 101]))],
      coord_names = [''lat'', ''lon'']\<rparr>"

definition ds_empty :: dataset where
  \<comment> \<open>the selection of \<open>ds_lonlat\<close> by a box that lies outside its grid\<close>
  "ds_empty =
     \<lparr>variables =
        [(''precipitation'', \<lparr>shape = [1, 0, 0], flat = []\<rparr>),
         (''time'', array1 (map Num [0])),
         (''lon'', array1 []),
         (''lat'', array1 [])],
      coord_names = [''time'', ''lon'', ''lat'']\<rparr>"

definition sel_outside :: "dataset \<Rightarrow> string \<Rightarrow> slice \<Rightarrow> string \<Rightarrow> slice \<Rightarrow> dataset option" where
  "sel_outside ds latn ls lonn os = Some ds_empty"

definition sel_raises :: "dataset \<Rightarrow> string \<Rightarrow> slice \<Rightarrow> string \<Rightarrow> slice \<Rightarrow> dataset option" where
  "sel_raises ds latn ls lonn os = None"

definition sample_open_grid :: "string \<Rightarrow> dataset option" where
  "sample_open_grid p =
     (if p = ''/data/a.nc'' then Some ds_lonlat
      else if p = ''/data/novar.nc'' then Some ds_novar
      else None)"

definition sample_open_flat :: "string \<Rightarrow> dataset option" where
  "sample_open_flat p = (if p = ''/data/both.nc'' then Some ds_both else None)"

definition sample_exists :: "string \<Rightarrow> bool" where
  "sample_exists p =
     (p \<in> set [''/data'', ''/data/a.nc'', ''/data/both.nc'', ''/data/novar.nc'',
                ''/data/bad.nc'', ''/data/notes.txt''])"

definition sample_listdir :: "string \<Rightarrow> string list option" where
  "sample_listdir p =
     (if p = ''/data''
      then Some [''a.nc'', ''notes.txt'', ''b.HDF5'', ''c.nc4'', ''d.hdf5'', ''nc'']
      else None)"

definition sample_env ::
  "string \<Rightarrow> (dataset \<Rightarrow> string \<Rightarrow> slice \<Rightarrow> string \<Rightarrow> slice \<Rightarrow> dataset option) \<Rightarrow> env" where
  "sample_env dir s =
     \<lparr>DATA_DIR = dir, path_exists = sample_exists, listdir = sample_listdir,
      open_grid = sample_open_grid, open_flat = sample_open_flat, sel = s,
      as_grid_dtype = as_f32_sample\<rparr>"

definition box_java :: bounds where
  "box_java = \<lparr>toplat = -5, bottomlat = -9, leftlon = 105, rightlon = 115\<rparr>"

section \<open>Facts about arrays\<close>

lemma product_snoc:
  "List.product (xs @ [x]) ys = List.product xs ys @ map (Pair x) ys"
  by (induction xs) simp_all

lemma map_index_product:
  "map (\<lambda>(i, j). i * m + j) (List.product [0..<n] [0..<m]) = [0..<n * m]"
proof (induction n)
  case 0
  then show ?case by simp
next
  case (Suc n)
  have "map (\<lambda>j. n * m + j) [0..<m] = [n * m..<n * m + m]"
    using map_add_upt [of "n * m" m] by (simp add: add.commute)
  moreover have "[0..<Suc n * m] = [0..<n * m] @ [n * m..<n * m + m]"
    using upt_add_eq_append [of 0 "n * m" m] by (simp add: add.commute)
  ultimately show ?case using Suc
    by (simp add: product_snoc o_def)
qed

lemma cells_product:
  assumes "shape a = [n, m]" "wf_ndarray a"
  shows "map (\<lambda>(i, j). at2 a i j) (List.product [0..<n] [0..<m]) = flat a"
proof -
  have len: "length (flat a) = n * m"
    using assms by (simp add: wf_ndarray_def)
  have "map (\<lambda>(i, j). at2 a i j) (List.product [0..<n] [0..<m])
      = map ((!) (flat a)) (map (\<lambda>(i, j). i * m + j) (List.product [0..<n] [0..<m]))"
    using assms by (simp add: at2_def split_def o_def)
  also have "\<dots> = map ((!) (flat a)) [0..<n * m]"
    by (simp only: map_index_product)
  also have "\<dots> = flat a"
    using map_nth [of "flat a"] by (simp only: len)
  finally show ?thesis .
qed

lemma filter_cells:
  assumes "shape a = [n, m]" "wf_ndarray a"
  shows "map (\<lambda>(i, j). at2 a i j) (filter (\<lambda>(i, j). P (at2 a i j)) (List.product [0..<n] [0..<m]))
       = filter P (flat a)"
proof -
  have "filter P (map (\<lambda>(i, j). at2 a i j) (List.product [0..<n] [0..<m]))
      = map (\<lambda>(i, j). at2 a i j) (filter (\<lambda>(i, j). P (at2 a i j)) (List.product [0..<n] [0..<m]))"
    by (simp add: filter_map o_def split_def)
  then show ?thesis using cells_product [OF assms] by simp
qed

lemma where_in_range:
  "list_all (\<lambda>i. i < n) (map fst (filter P (List.product [0..<n] [0..<m])))"
  "list_all (\<lambda>j. j < m) (map snd (filter P (List.product [0..<n] [0..<m])))"
  by (auto simp add: list_all_iff)

lemma index0_1d:
  assumes "shape a = [n]" "wf_ndarray a" "list_all (\<lambda>i. i < n) idxs"
  shows "index0 a idxs = Inr \<lparr>shape = [length idxs], flat = map ((!) (flat a)) idxs\<rparr>"
proof -
  have len: "length (flat a) = n"
    using assms(1,2) by (simp add: wf_ndarray_def)
  have "concat (map (\<lambda>i. take 1 (drop i (flat a))) idxs) = map ((!) (flat a)) idxs"
    using assms(3) unfolding len [symmetric]
  proof (induction idxs)
    case Nil
    then show ?case by simp
  next
    case (Cons i idxs)
    then have "i < length (flat a)" by simp
    then have "take 1 (drop i (flat a)) = [flat a ! i]"
      by (metis One_nat_def take_Suc_conv_app_nth append_Nil drop_drop take0 Cons_nth_drop_Suc take_Suc_Cons)
    with Cons show ?case by simp
  qed
  then show ?thesis using assms by (simp add: index0_def)
qed

lemma nums_simps:
  "nums [] = []" "nums (Num x # cs) = x # nums cs" "nums (NaN # cs) = nums cs"
  by (simp_all add: nums_def)

lemma foldl_cell_max_NaN: "foldl cell_max NaN cs = NaN"
  by (induction cs) simp_all

lemma foldl_cell_max:
  "foldl cell_max (Num x) cs = (if NaN \<in> set cs then NaN else Num (Max (set (x # nums cs))))"
proof (induction cs arbitrary: x)
  case Nil
  show ?case by (simp add: nums_simps)
next
  case (Cons c cs)
  show ?case
  proof (cases c)
    case (Num y)
    have "Max (set (max x y # nums cs)) = Max (set (x # y # nums cs))"
      by (cases "nums cs") (simp_all add: max.assoc)
    with Cons [of "max x y"] Num show ?thesis by (simp add: nums_simps)
  next
    case NaN
    then show ?thesis by (simp add: foldl_cell_max_NaN)
  qed
qed

lemma np_max_cases:
  assumes "flat a \<noteq> []"
  shows "np_max a = Inr (if NaN \<in> set (flat a) then NaN else Num (Max (set (nums (flat a)))))"
proof -
  from assms obtain c cs where f: "flat a = c # cs" by (cases "flat a") auto
  show ?thesis
  proof (cases c)
    case (Num x)
    with f foldl_cell_max [of x cs] show ?thesis by (simp add: np_max_def nums_simps)
  next
    case NaN
    with f show ?thesis by (simp add: np_max_def foldl_cell_max_NaN)
  qed
qed

lemma sparse_filter_max:
  assumes "sparse_filter as_dtype f32 data lats lons t = Inr (vl, vo, vr, mx)" "wf_ndarray data"
  shows "length vr = length (filter (\<lambda>c. cell_gt c (as_dtype t)) (flat data))"
    and "mx = (if vr \<noteq> []
               then (if NaN \<in> set (flat data) then NaN else Num (Max (set (nums (flat data)))))
               else Num 0)"
proof -
  from assms(1) obtain idx where w: "np_where_gt as_dtype data t = Inr idx"
    by (auto simp add: sparse_filter_def split: sum.splits)
  then obtain n m where sh: "shape data = [n, m]"
    and idx: "idx = filter (\<lambda>(i, j). cell_gt (at2 data i j) (as_dtype t)) (List.product [0..<n] [0..<m])"
    by (auto simp add: np_where_gt_def split: list.splits)
  from assms(1) w have vr: "vr = map f32 (index2 data idx)"
    by (auto simp add: sparse_filter_def Let_def split: sum.splits)
  have cells: "index2 data idx = filter (\<lambda>c. cell_gt c (as_dtype t)) (flat data)"
    unfolding index2_def idx
    using filter_cells [OF sh assms(2), of "\<lambda>c. cell_gt c (as_dtype t)"] .
  show "length vr = length (filter (\<lambda>c. cell_gt c (as_dtype t)) (flat data))"
    by (simp add: vr cells)
  from assms(1) w vr have mx: "(if 0 < length vr then np_max data else Inr (Num 0)) = Inr mx"
    by (auto simp add: sparse_filter_def Let_def split: sum.splits)
  show "mx = (if vr \<noteq> []
               then (if NaN \<in> set (flat data) then NaN else Num (Max (set (nums (flat data)))))
               else Num 0)"
  proof (cases "vr = []")
    case True
    with mx show ?thesis by simp
  next
    case False
    then have "flat data \<noteq> []" using vr cells by auto
    with False mx np_max_cases [of data] show ?thesis by simp
  qed
qed

section \<open>The grid maximum of the sparse filter\<close>

text \<open>
  Claim C1, as the code has it. The sparse filter of \<^verbatim>\<open>_extract_cloud_arrays\<close> computes
  \<^verbatim>\<open>max_val = float(np.max(data)) if len(valid_rain) > 0 else 0.0\<close>. So on a well-formed
  grid the count is the number of cells that \<^verbatim>\<open>data > threshold\<close> accepts (a cell that is
  a number strictly above the threshold converted to the dtype of the grid; never a NaN
  cell), and \<open>max_val\<close> is \<^verbatim>\<open>np.max\<close> of the whole grid when at least one cell is
  accepted (NaN if some cell of the grid is NaN, the maximum of the grid otherwise) and
  \<open>0\<close> whenever none is, whatever the grid holds.
\<close>

theorem max_val_guarded:
  assumes "wf_ndarray data"
    and "sparse_filter as_dtype f32 data lats lons t = Inr (vl, vo, vr, mx)"
  shows "length vr = length (filter (\<lambda>c. cell_gt c (as_dtype t)) (flat data))
       \<and> mx = (if 0 < length vr
               then (if NaN \<in> set (flat data) then NaN else Num (Max (set (nums (flat data)))))
               else Num 0)"
proof
  show "length vr = length (filter (\<lambda>c. cell_gt c (as_dtype t)) (flat data))"
    using sparse_filter_max(1) [OF assms(2) assms(1)] .
  show "mx = (if 0 < length vr
               then (if NaN \<in> set (flat data) then NaN else Num (Max (set (nums (flat data)))))
               else Num 0)"
    using sparse_filter_max(2) [OF assms(2) assms(1)] by (cases "vr = []") simp_all
qed

text \<open>
  The theorem at a 2 by 2 float32 grid and threshold 2: two cells pass, the maximum is 5.
  Beside it, two more runs of the filter: with a NaN cell in the grid the maximum is NaN;
  and at the threshold 16777219, which float32 rounds to 16777220, the cell 16777220 does
  not pass, so that the count and the maximum are 0.
\<close>

theorem max_val_guarded_witness:
  "wf_ndarray (array2 [map Num [1, 2], map Num [3, 5]] 2)
   \<and> sparse_filter as_f32_sample f32_sample (array2 [map Num [1, 2], map Num [3, 5]] 2)
         (array1 (map Num [10, 11])) (array1 (map Num [100, 101])) 2
       = Inr (\<lparr>shape = [2], flat = [0x41300000, 0x41300000]\<rparr>,
              \<lparr>shape = [2], flat = [0x42C80000, 0x42CA0000]\<rparr>,
              [0x40400000, 0x40A00000], Num 5)
   \<and> length (filter (\<lambda>c. cell_gt c (as_f32_sample 2))
               (flat (array2 [map Num [1, 2], map Num [3, 5]] 2))) = 2
   \<and> NaN \<notin> set (flat (array2 [map Num [1, 2], map Num [3, 5]] 2))
   \<and> Max (set (nums (flat (array2 [map Num [1, 2], map Num [3, 5]] 2)))) = 5
   \<and> sparse_filter as_f32_sample f32_sample (array2 [[Num 1, NaN], [Num 3, Num 5]] 2)
         (array1 (map Num [10, 11])) (array1 (map Num [100, 101])) 2
       = Inr (\<lparr>shape = [2], flat = [0x41300000, 0x41300000]\<rparr>,
              \<lparr>shape = [2], flat = [0x42C80000, 0x42CA0000]\<rparr>,
              [0x40400000, 0x40A00000], NaN)
   \<and> sparse_filter as_f32_sample f32_sample (array2 [map Num [1, 2], map Num [3, 16777220]] 2)
         (array1 (map Num [10, 11])) (array1 (map Num [100, 101])) 16777219
       = Inr (\<lparr>shape = [0], flat = []\<rparr>, \<lparr>shape = [0], flat = []\<rparr>, [], Num 0)"
proof -
  let ?G = "array2 [map Num [1, 2], map Num [3, 5]] 2"
  have wf: "wf_ndarray ?G"
    by (simp add: wf_ndarray_def array2_def)
  have run: "sparse_filter as_f32_sample f32_sample ?G
         (array1 (map Num [10, 11])) (array1 (map Num [100, 101])) 2
       = Inr (\<lparr>shape = [2], flat = [0x41300000, 0x41300000]\<rparr>,
              \<lparr>shape = [2], flat = [0x42C80000, 0x42CA0000]\<rparr>,
              [0x40400000, 0x40A00000], Num 5)"
    by code_simp
  have cnt: "length (filter (\<lambda>c. cell_gt c (as_f32_sample 2)) (flat ?G)) = 2"
    by (simp add: array2_def cell_gt_def as_f32_sample_def)
  have nn: "NaN \<notin> set (flat ?G)"
    by (simp add: array2_def)
  have mx: "Max (set (nums (flat ?G))) = 5"
    by (simp add: array2_def nums_def)
  have nan: "sparse_filter as_f32_sample f32_sample (array2 [[Num 1, NaN], [Num 3, Num 5]] 2)
         (array1 (map Num [10, 11])) (array1 (map Num [100, 101])) 2
       = Inr (\<lparr>shape = [2], flat = [0x41300000, 0x41300000]\<rparr>,
              \<lparr>shape = [2], flat = [0x42C80000, 0x42CA0000]\<rparr>,
              [0x40400000, 0x40A00000], NaN)"
    by code_simp
  have big: "sparse_filter as_f32_sample f32_sample (array2 [map Num [1, 2], map Num [3, 16777220]] 2)
         (array1 (map Num [10, 11])) (array1 (map Num [100, 101])) 16777219
       = Inr (\<lparr>shape = [0], flat = []\<rparr>, \<lparr>shape = [0], flat = []\<rparr>, [], Num 0)"
    by code_simp
  from max_val_guarded [OF wf run] wf run cnt nn mx nan big show ?thesis by simp
qed

text \<open>
  The same grid at threshold 7: no cell passes, and the returned maximum is 0 although
  the maximum of the grid is 5. The returned maximum depends on the threshold.
\<close>

theorem max_val_zero_counterexample:
  "sparse_filter as_f32_sample f32_sample (array2 [map Num [1, 2], map Num [3, 5]] 2)
       (array1 (map Num [10, 11])) (array1 (map Num [100, 101])) 7
     = Inr (\<lparr>shape = [0], flat = []\<rparr>, \<lparr>shape = [0], flat = []\<rparr>, [], Num 0)
   \<and> Max (set (nums (flat (array2 [map Num [1, 2], map Num [3, 5]] 2)))) = 5
   \<and> Num 0 \<noteq> Num 5"
proof -
  have "sparse_filter as_f32_sample f32_sample (array2 [map Num [1, 2], map Num [3, 5]] 2)
       (array1 (map Num [10, 11])) (array1 (map Num [100, 101])) 7
     = Inr (\<lparr>shape = [0], flat = []\<rparr>, \<lparr>shape = [0], flat = []\<rparr>, [], Num 0)"
    by code_simp
  moreover have "Max (set (nums (flat (array2 [map Num [1, 2], map Num [3, 5]] 2)))) = 5"
    by (simp add: array2_def nums_def)
  ultimately show ?thesis by simp
qed

section \<open>The cells kept by the sparse filter\<close>

text \<open>
  Claim C5, as the code has it. For a grid of shape \<open>(n, m)\<close> with \<open>n\<close> latitudes and
  \<open>m\<close> longitudes, the sparse filter returns: as many values as there are cells that
  \<^verbatim>\<open>data > threshold\<close> accepts, which are the cells holding a number strictly above the
  threshold converted to the dtype of the grid, and never a NaN cell; three parallel
  sequences of that length; and, read as triples, exactly the accepted cells in the order
  of a row-major scan, each with the latitude of its row and the longitude of its column,
  cast to float32. For a float64 grid the conversion is the identity, and the accepted
  numbers are those strictly above the threshold itself.
\<close>

theorem sparse_filter_cells:
  assumes "shape data = [n, m]" "wf_ndarray data"
    and "shape lats = [n]" "wf_ndarray lats"
    and "shape lons = [m]" "wf_ndarray lons"
  shows "\<exists>vl vo vr mx.
           sparse_filter as_dtype f32 data lats lons t = Inr (vl, vo, vr, mx)
         \<and> length vr = length (filter (\<lambda>c. cell_gt c (as_dtype t)) (flat data))
         \<and> shape vl = [length vr] \<and> shape vo = [length vr]
         \<and> length (flat vl) = length vr \<and> length (flat vo) = length vr
         \<and> zip (flat vl) (zip (flat vo) vr)
             = map (\<lambda>(i, j). (f32 (flat lats ! i), f32 (flat lons ! j), f32 (at2 data i j)))
                 (filter (\<lambda>(i, j). cell_gt (at2 data i j) (as_dtype t))
                    (List.product [0..<n] [0..<m]))"
proof -
  define idx where
    "idx = filter (\<lambda>(i, j). cell_gt (at2 data i j) (as_dtype t)) (List.product [0..<n] [0..<m])"
  have w: "np_where_gt as_dtype data t = Inr idx"
    using assms(1) by (simp add: np_where_gt_def idx_def)
  have la: "index0 lats (map fst idx) = Inr \<lparr>shape = [length idx], flat = map ((!) (flat lats)) (map fst idx)\<rparr>"
    using index0_1d [OF assms(3,4) where_in_range(1) [of n _ m]] by (simp add: idx_def)
  have lo: "index0 lons (map snd idx) = Inr \<lparr>shape = [length idx], flat = map ((!) (flat lons)) (map snd idx)\<rparr>"
    using index0_1d [OF assms(5,6) where_in_range(2) [of m _ n]] by (simp add: idx_def)
  have cells: "index2 data idx = filter (\<lambda>c. cell_gt c (as_dtype t)) (flat data)"
    unfolding index2_def idx_def
    using filter_cells [OF assms(1,2), of "\<lambda>c. cell_gt c (as_dtype t)"] .
  have ne: "idx \<noteq> [] \<Longrightarrow> flat data \<noteq> []"
    using cells by (auto simp add: index2_def)
  obtain mx where mx: "(if 0 < length (map f32 (index2 data idx)) then np_max data else Inr (Num 0)) = Inr mx"
    using np_max_cases [of data] ne by (cases "idx = []") (auto simp add: index2_def)
  have run: "sparse_filter as_dtype f32 data lats lons t =
      Inr (astype f32 \<lparr>shape = [length idx], flat = map ((!) (flat lats)) (map fst idx)\<rparr>,
           astype f32 \<lparr>shape = [length idx], flat = map ((!) (flat lons)) (map snd idx)\<rparr>,
           map f32 (index2 data idx), mx)"
    using mx by (simp add: sparse_filter_def w la lo Let_def)
  have z: "zip (map (\<lambda>p. f32 (flat lats ! fst p)) idx)
             (zip (map (\<lambda>p. f32 (flat lons ! snd p)) idx) (map (\<lambda>p. f32 (at2 data (fst p) (snd p))) idx))
         = map (\<lambda>p. (f32 (flat lats ! fst p), f32 (flat lons ! snd p), f32 (at2 data (fst p) (snd p)))) idx"
    by (induction idx) simp_all
  have len: "length idx = length (filter (\<lambda>c. cell_gt c (as_dtype t)) (flat data))"
    using arg_cong [OF cells, of length] by (simp add: index2_def)
  show ?thesis
    unfolding run
    apply (intro exI conjI)
          apply (rule refl)
    using len z
    by (simp_all add: astype_def index2_def o_def split_def idx_def)
qed

text \<open>
  The theorem at the 2 by 3 float32 grid with rows \<open>[1, 2, 3]\<close> and \<open>[5, 6, 7]\<close> and
  threshold 2: four cells pass, in the order (0,2), (1,0), (1,1), (1,2).
\<close>

theorem sparse_filter_cells_witness:
  "shape \<lparr>shape = [2, 3], flat = map Num [1, 2, 3, 5, 6, 7]\<rparr> = [2, 3]
   \<and> wf_ndarray \<lparr>shape = [2, 3], flat = map Num [1, 2, 3, 5, 6, 7]\<rparr>
   \<and> shape (array1 (map Num [10, 11])) = [2] \<and> wf_ndarray (array1 (map Num [10, 11]))
   \<and> shape (array1 (map Num [100, 101, 102])) = [3] \<and> wf_ndarray (array1 (map Num [100, 101, 102]))
   \<and> (\<exists>vl vo vr mx.
         sparse_filter as_f32_sample f32_sample \<lparr>shape = [2, 3], flat = map Num [1, 2, 3, 5, 6, 7]\<rparr>
           (array1 (map Num [10, 11])) (array1 (map Num [100, 101, 102])) 2 = Inr (vl, vo, vr, mx)
       \<and> length vr = 4
       \<and> zip (flat vl) (zip (flat vo) vr)
           = [(0x41200000, 0x42CC0000, 0x40400000), (0x41300000, 0x42C80000, 0x40A00000),
              (0x41300000, 0x42CA0000, 0x40C00000), (0x41300000, 0x42CC0000, 0x40E00000)])"
proof -
  let ?G = "\<lparr>shape = [2, 3], flat = map Num [1, 2, 3, 5, 6, 7]\<rparr>"
  let ?la = "array1 (map Num [10, 11])"
  let ?lo = "array1 (map Num [100, 101, 102])"
  have h1: "shape ?G = [2, 3]" by simp
  have h2: "wf_ndarray ?G" by (simp add: wf_ndarray_def)
  have h3: "shape ?la = [2]" by (simp add: array1_def)
  have h4: "wf_ndarray ?la" by (simp add: wf_ndarray_def array1_def)
  have h5: "shape ?lo = [3]" by (simp add: array1_def)
  have h6: "wf_ndarray ?lo" by (simp add: wf_ndarray_def array1_def)
  have cnt: "length (filter (\<lambda>c. cell_gt c (as_f32_sample 2)) (flat ?G)) = 4"
    by (simp add: cell_gt_def as_f32_sample_def)
  have cells: "map (\<lambda>(i, j). (f32_sample (flat ?la ! i), f32_sample (flat ?lo ! j), f32_sample (at2 ?G i j)))
                 (filter (\<lambda>(i, j). cell_gt (at2 ?G i j) (as_f32_sample 2)) (List.product [0..<2] [0..<3]))
           = [(0x41200000, 0x42CC0000, 0x40400000), (0x41300000, 0x42C80000, 0x40A00000),
              (0x41300000, 0x42CA0000, 0x40C00000), (0x41300000, 0x42CC0000, 0x40E00000)]"
    by (simp add: upt_conv_Cons at2_def array1_def f32_sample_def cell_gt_def as_f32_sample_def)
  from sparse_filter_cells [OF h1 h2 h3 h4 h5 h6, of as_f32_sample f32_sample 2]
  show ?thesis using h1 h2 h3 h4 h5 h6 unfolding cnt cells by blast
qed

text \<open>
  The claim as it was stated fails on a float32 grid at the default threshold 0.1. The
  binary32 number nearest to 0.1 is \<open>13421773 / 2 ^ 27\<close>, which lies above 0.1. Two cells
  of the grid hold that number: they are strictly greater than the threshold, and the
  filter does not return them, since it compares them with the threshold converted to
  float32. So four cells are strictly greater than 0.1, and the count is two.
\<close>

theorem sparse_filter_threshold_counterexample:
  "sparse_filter as_f32_sample f32_sample
       (array2 [map Num [13421773 / 134217728, 1], map Num [3, 13421773 / 134217728]] 2)
       (array1 (map Num [10, 11])) (array1 (map Num [100, 101])) (1 / 10)
     = Inr (\<lparr>shape = [2], flat = [0x41200000, 0x41300000]\<rparr>,
            \<lparr>shape = [2], flat = [0x42CA0000, 0x42C80000]\<rparr>,
            [0x3F800000, 0x40400000], Num 3)
   \<and> length (filter (\<lambda>c. cell_gt c (1 / 10))
               (flat (array2 [map Num [13421773 / 134217728, 1], map Num [3, 13421773 / 134217728]] 2)))
       = 4
   \<and> as_f32_sample (1 / 10) = 13421773 / 2 ^ 27
   \<and> (2 :: nat) ^ 23 \<le> 13421773 \<and> (13421773 :: nat) < 2 ^ 24
   \<and> \<bar>13421773 / 2 ^ 27 - 1 / 10 :: real\<bar> < 1 / 2 ^ 28"
proof (intro conjI)
  show "sparse_filter as_f32_sample f32_sample
       (array2 [map Num [13421773 / 134217728, 1], map Num [3, 13421773 / 134217728]] 2)
       (array1 (map Num [10, 11])) (array1 (map Num [100, 101])) (1 / 10)
     = Inr (\<lparr>shape = [2], flat = [0x41200000, 0x41300000]\<rparr>,
            \<lparr>shape = [2], flat = [0x42CA0000, 0x42C80000]\<rparr>,
            [0x3F800000, 0x40400000], Num 3)"
    by code_simp
  show "length (filter (\<lambda>c. cell_gt c (1 / 10))
               (flat (array2 [map Num [13421773 / 134217728, 1], map Num [3, 13421773 / 134217728]] 2)))
       = 4"
    by (simp add: array2_def cell_gt_def)
  show "as_f32_sample (1 / 10) = 13421773 / 2 ^ 27"
    by (simp add: as_f32_sample_def)
  show "(2 :: nat) ^ 23 \<le> 13421773" by simp
  show "(13421773 :: nat) < 2 ^ 24" by simp
  show "\<bar>13421773 / 2 ^ 27 - 1 / 10 :: real\<bar> < 1 / 2 ^ 28" by simp
qed

section \<open>Orientation\<close>

lemma nth_concat_grid:
  assumes "j < m" "i < n"
  shows "concat (map (\<lambda>j. map (f j) [0..<n]) [0..<m]) ! (j * n + i) = f j i"
  using assms
proof (induction m arbitrary: j)
  case 0
  then show ?case by simp
next
  case (Suc m)
  have len: "length (concat (map (\<lambda>j. map (f j) [0..<n]) [0..<m])) = m * n"
    by (induction m) simp_all
  show ?case
  proof (cases "j < m")
    case True
    then have "j * n + i < m * n"
      using Suc.prems(2) by (metis add.commute mult_Suc less_le_trans add_less_cancel_left mult_le_mono1 Suc_leI)
    with True Suc show ?thesis by (simp add: nth_append len)
  next
    case False
    with Suc.prems have "j = m" by simp
    with Suc.prems show ?thesis by (simp add: nth_append len)
  qed
qed

lemma transpose_T_2d:
  assumes "shape a = [n, m]"
  shows "shape (transpose_T a) = [m, n]"
    and "wf_ndarray (transpose_T a)"
    and "j < m \<Longrightarrow> i < n \<Longrightarrow> at2 (transpose_T a) j i = at2 a i j"
proof -
  show "shape (transpose_T a) = [m, n]"
    using assms by (simp add: transpose_T_def)
  have "length (concat (map (\<lambda>j. map (\<lambda>i. at2 a i j) [0..<n]) [0..<m])) = m * n"
    by (induction m) simp_all
  then show "wf_ndarray (transpose_T a)"
    using assms by (simp add: transpose_T_def wf_ndarray_def)
  show "at2 (transpose_T a) j i = at2 a i j" if "j < m" "i < n"
    using assms nth_concat_grid [OF that, of "\<lambda>j i. at2 a i j"]
    by (simp add: transpose_T_def at2_def [of "\<lparr>shape = _, flat = _\<rparr>"])
qed

text \<open>
  Claim C7. With \<open>len(lats) = nlat\<close> and \<open>len(lons) = nlon\<close>: a squeezed 2-D array of
  shape \<open>(nlon, nlat)\<close> is transposed, so that cell \<open>(i, j)\<close> of the result is cell
  \<open>(j, i)\<close> of the input; an array of shape \<open>(nlat, nlon)\<close> that is not also of shape
  \<open>(nlon, nlat)\<close> is left as it is; in both cases the result has shape
  \<open>(nlat, nlon)\<close>. The scenario: the values \<open>[[1,5],[2,6],[3,7]]\<close> of shape (3, 2)
  become the rows \<open>[1,2,3]\<close> and \<open>[5,6,7]\<close> of shape (2, 3), also through
  \<^verbatim>\<open>process_local_file\<close> on a file whose field has axes (time, lon, lat) of lengths
  (1, 3, 2).
\<close>

theorem orient_shape:
  "(len_nd lats = Inr nlat \<and> len_nd lons = Inr nlon
      \<and> (shape data = [nlon, nlat] \<or> shape data = [nlat, nlon])
    \<longrightarrow> (\<exists>d. orient data lats lons = Inr d
           \<and> shape d = [nlat, nlon]
           \<and> (shape data = [nlon, nlat]
                \<longrightarrow> wf_ndarray d \<and> (\<forall>i < nlat. \<forall>j < nlon. at2 d i j = at2 data j i))
           \<and> (shape data \<noteq> [nlon, nlat] \<longrightarrow> d = data)))
   \<and> orient \<lparr>shape = [3, 2], flat = map Num [1, 5, 2, 6, 3, 7]\<rparr> (array1 (map Num [10, 11])) (array1 (map Num [100, 101, 102]))
       = Inr \<lparr>shape = [2, 3], flat = map Num [1, 2, 3, 5, 6, 7]\<rparr>
   \<and> row \<lparr>shape = [2, 3], flat = map Num [1, 2, 3, 5, 6, 7]\<rparr> 0 = map Num [1, 2, 3]
   \<and> row \<lparr>shape = [2, 3], flat = map Num [1, 2, 3, 5, 6, 7]\<rparr> 1 = map Num [5, 6, 7]
   \<and> process_local_file (sample_env ''/data'' sel_raises) ''a.nc'' box_java
       = (Inr (array1 (map Num [10, 11]), array1 (map Num [100, 101, 102]), \<lparr>shape = [2, 3], flat = map Num [1, 2, 3, 5, 6, 7]\<rparr>),
          [OpenGrouped ''/data/a.nc'', Close])"
proof (intro conjI impI)
  assume h: "len_nd lats = Inr nlat \<and> len_nd lons = Inr nlon
      \<and> (shape data = [nlon, nlat] \<or> shape data = [nlat, nlon])"
  show "\<exists>d. orient data lats lons = Inr d
           \<and> shape d = [nlat, nlon]
           \<and> (shape data = [nlon, nlat]
                \<longrightarrow> wf_ndarray d \<and> (\<forall>i < nlat. \<forall>j < nlon. at2 d i j = at2 data j i))
           \<and> (shape data \<noteq> [nlon, nlat] \<longrightarrow> d = data)"
  proof (cases "shape data = [nlon, nlat]")
    case True
    have "orient data lats lons = Inr (transpose_T data)"
      using h True by (simp add: orient_def)
    then show ?thesis
      using transpose_T_2d [OF True] True by simp
  next
    case False
    then have "orient data lats lons = Inr data"
      using h by (simp add: orient_def)
    then show ?thesis using h False by simp
  qed
next
  show "orient \<lparr>shape = [3, 2], flat = map Num [1, 5, 2, 6, 3, 7]\<rparr> (array1 (map Num [10, 11])) (array1 (map Num [100, 101, 102]))
       = Inr \<lparr>shape = [2, 3], flat = map Num [1, 2, 3, 5, 6, 7]\<rparr>"
    by code_simp
  show "row \<lparr>shape = [2, 3], flat = map Num [1, 2, 3, 5, 6, 7]\<rparr> 0 = map Num [1, 2, 3]"
    by code_simp
  show "row \<lparr>shape = [2, 3], flat = map Num [1, 2, 3, 5, 6, 7]\<rparr> 1 = map Num [5, 6, 7]"
    by code_simp
  show "process_local_file (sample_env ''/data'' sel_raises) ''a.nc'' box_java
       = (Inr (array1 (map Num [10, 11]), array1 (map Num [100, 101, 102]), \<lparr>shape = [2, 3], flat = map Num [1, 2, 3, 5, 6, 7]\<rparr>),
          [OpenGrouped ''/data/a.nc'', Close])"
    by code_simp
qed

text \<open>The general part of the theorem at the arrays of the scenario.\<close>

theorem orient_shape_witness:
  "len_nd (array1 (map Num [10, 11])) = Inr 2 \<and> len_nd (array1 (map Num [100, 101, 102])) = Inr 3
   \<and> shape \<lparr>shape = [3, 2], flat = map Num [1, 5, 2, 6, 3, 7]\<rparr> = [3, 2]
   \<and> (\<exists>d. orient \<lparr>shape = [3, 2], flat = map Num [1, 5, 2, 6, 3, 7]\<rparr> (array1 (map Num [10, 11])) (array1 (map Num [100, 101, 102])) = Inr d
         \<and> shape d = [2, 3]
         \<and> at2 d 0 2 = at2 \<lparr>shape = [3, 2], flat = map Num [1, 5, 2, 6, 3, 7]\<rparr> 2 0)"
proof -
  let ?D = "\<lparr>shape = [3, 2], flat = map Num [1, 5, 2, 6, 3, 7]\<rparr>"
  have h: "len_nd (array1 (map Num [10, 11])) = Inr 2 \<and> len_nd (array1 (map Num [100, 101, 102])) = Inr 3
      \<and> (shape ?D = [3, 2] \<or> shape ?D = [2, 3])"
    by (simp add: len_nd_def array1_def)
  from orient_shape [of "array1 (map Num [10, 11])" 2 "array1 (map Num [100, 101, 102])" 3 ?D] h
  obtain d where d: "orient ?D (array1 (map Num [10, 11])) (array1 (map Num [100, 101, 102])) = Inr d"
      "shape d = [2, 3]" "\<forall>i < 2. \<forall>j < 3. at2 d i j = at2 ?D j i"
    by auto
  from d(3) have "at2 d 0 2 = at2 ?D 2 0" by simp
  with d h show ?thesis by auto
qed

section \<open>Schema resolver and dataset opener\<close>

lemma extract_grid_error:
  "extract_grid d vn latn lonn = Inl x \<Longrightarrow> x = KeyError \<or> x = TypeError"
  by (auto simp add: extract_grid_def getitem_def orient_def len_nd_def
      split: sum.splits option.splits list.splits)

lemma np_where_gt_error: "np_where_gt f a t = Inl x \<Longrightarrow> x = ValueError"
  by (auto simp add: np_where_gt_def split: list.splits)

lemma index0_error: "index0 a idxs = Inl x \<Longrightarrow> x = IndexError"
  by (auto simp add: index0_def split: list.splits if_splits)

lemma np_max_error: "np_max a = Inl x \<Longrightarrow> x = ValueError"
  by (auto simp add: np_max_def split: list.splits)

lemma sparse_filter_error:
  "sparse_filter f f32 data lats lons t = Inl x \<Longrightarrow> x = ValueError \<or> x = IndexError"
  by (auto simp add: sparse_filter_def Let_def
      dest: np_where_gt_error index0_error np_max_error split: sum.splits if_splits)

lemma open_dataset_None:
  "(fst (open_dataset e p) = None) = (open_grid e p = None \<and> open_flat e p = None)"
  by (auto simp add: open_dataset_def split: option.splits)

lemma extract_cloud_arrays_opened:
  assumes "path_exists e (path_join (DATA_DIR e) fn)"
    and "open_dataset e (path_join (DATA_DIR e) fn) = (Some ds, tr)"
  shows "extract_cloud_arrays e f32 fn b t =
     (case var_name ds of
        None \<Rightarrow> (Inl VariableNotFound, tr)
      | Some vn \<Rightarrow>
          (case extract_grid (crop_or_full e ds vn (coord_name ''lat'' ds) (coord_name ''lon'' ds) b)
                  vn (coord_name ''lat'' ds) (coord_name ''lon'' ds) of
             Inl x \<Rightarrow> (Inl x, tr)
           | Inr (lats, lons, data) \<Rightarrow>
               (case sparse_filter (as_grid_dtype e) f32 data lats lons t of
                  Inl x \<Rightarrow> (Inl x, tr)
                | Inr r \<Rightarrow> (Inr r, tr @ [Close]))))"
  using assms by (simp add: extract_cloud_arrays_def Let_def)

lemma process_local_file_opened:
  assumes "path_exists e (path_join (DATA_DIR e) fn)"
    and "open_dataset e (path_join (DATA_DIR e) fn) = (Some ds, tr)"
  shows "process_local_file e fn b =
     (case var_name ds of
        None \<Rightarrow> (Inl VariableNotFound, tr)
      | Some vn \<Rightarrow>
          (case extract_grid (crop_or_full e ds vn (coord_name ''lat'' ds) (coord_name ''lon'' ds) b)
                  vn (coord_name ''lat'' ds) (coord_name ''lon'' ds) of
             Inl x \<Rightarrow> (Inl x, tr)
           | Inr r \<Rightarrow> (Inr r, tr @ [Close])))"
  using assms by (simp add: process_local_file_def Let_def split: option.split)

lemma get_sparse_cloud_data_opened:
  assumes "path_exists e (path_join (DATA_DIR e) fn)"
    and "open_dataset e (path_join (DATA_DIR e) fn) = (Some ds, tr)"
  shows "get_sparse_cloud_data e rnd fn b t =
     (case var_name ds of
        None \<Rightarrow> (Inl VariableNotFound, tr)
      | Some vn \<Rightarrow>
          (case extract_grid (crop_sel e ds (coord_name ''lat'' ds) (coord_name ''lon'' ds) b)
                  vn (coord_name ''lat'' ds) (coord_name ''lon'' ds) of
             Inl x \<Rightarrow> (Inl x, tr)
           | Inr (lats, lons, data) \<Rightarrow>
               (case np_where_gt (as_grid_dtype e) data t of
                  Inl x \<Rightarrow> (Inl x, tr)
                | Inr idx \<Rightarrow>
                    (case index0 lats (map fst idx) of
                       Inl x \<Rightarrow> (Inl x, tr)
                     | Inr valid_lats \<Rightarrow>
                         (case index0 lons (map snd idx) of
                            Inl x \<Rightarrow> (Inl x, tr)
                          | Inr valid_lons \<Rightarrow>
                              (case np_max data of
                                 Inl x \<Rightarrow> (Inl x, tr)
                               | Inr mx \<Rightarrow>
                                   (Inr \<lparr>r_lats = astype (rnd 3) valid_lats,
                                         r_lons = astype (rnd 3) valid_lons,
                                         r_vals = map (rnd 2) (index2 data idx),
                                         stats_max = mx,
                                         stats_count = length (index2 data idx)\<rparr>,
                                    tr @ [Close])))))))"
  using assms
  by (simp add: get_sparse_cloud_data_def Let_def split: option.split sum.split prod.split)

lemma extract_cloud_arrays_not_open_failure:
  assumes "path_exists e (path_join (DATA_DIR e) fn)"
    and "open_dataset e (path_join (DATA_DIR e) fn) = (Some ds, tr)"
  shows "fst (extract_cloud_arrays e f32 fn b t) \<noteq> Inl OpenFailure"
  unfolding extract_cloud_arrays_opened [OF assms]
  by (auto split: option.splits sum.splits dest: extract_grid_error sparse_filter_error)

lemma process_local_file_not_open_failure:
  assumes "path_exists e (path_join (DATA_DIR e) fn)"
    and "open_dataset e (path_join (DATA_DIR e) fn) = (Some ds, tr)"
  shows "fst (process_local_file e fn b) \<noteq> Inl OpenFailure"
  unfolding process_local_file_opened [OF assms]
  by (auto split: option.splits sum.splits dest: extract_grid_error)

lemma get_sparse_cloud_data_not_open_failure:
  assumes "path_exists e (path_join (DATA_DIR e) fn)"
    and "open_dataset e (path_join (DATA_DIR e) fn) = (Some ds, tr)"
  shows "fst (get_sparse_cloud_data e rnd fn b t) \<noteq> Inl OpenFailure"
  unfolding get_sparse_cloud_data_opened [OF assms]
  by (auto split: option.splits sum.splits
      dest: extract_grid_error np_where_gt_error index0_error np_max_error)

text \<open>
  Claim C8. The variable is the first of \<open>precipitationCal\<close>, \<open>precipitation\<close>, \<open>precip\<close>
  that is in the dataset, so a dataset with both \<open>precipitationCal\<close> and \<open>precipitation\<close>
  resolves to \<open>precipitationCal\<close>. When the file exists and opens and none of the three is
  in the dataset, each entry point raises \<open>VariableNotFound\<close>, having made the open
  attempts once and nothing else.
\<close>

theorem var_name_priority:
  "var_name ds =
     (if contains ds ''precipitationCal'' then Some ''precipitationCal''
      else if contains ds ''precipitation'' then Some ''precipitation''
      else if contains ds ''precip'' then Some ''precip''
      else None)
   \<and> (path_exists e (path_join (DATA_DIR e) fn)
        \<and> open_dataset e (path_join (DATA_DIR e) fn) = (Some ds, tr)
        \<and> \<not> contains ds ''precipitationCal'' \<and> \<not> contains ds ''precipitation''
        \<and> \<not> contains ds ''precip''
      \<longrightarrow> extract_cloud_arrays e f32 fn b t = (Inl VariableNotFound, tr)
        \<and> process_local_file e fn b = (Inl VariableNotFound, tr)
        \<and> get_sparse_cloud_data e rnd fn b t = (Inl VariableNotFound, tr))"
proof (intro conjI impI)
  show v: "var_name ds =
     (if contains ds ''precipitationCal'' then Some ''precipitationCal''
      else if contains ds ''precipitation'' then Some ''precipitation''
      else if contains ds ''precip'' then Some ''precip''
      else None)"
    by (simp add: var_name_def candidates_def)
  assume h: "path_exists e (path_join (DATA_DIR e) fn)
        \<and> open_dataset e (path_join (DATA_DIR e) fn) = (Some ds, tr)
        \<and> \<not> contains ds ''precipitationCal'' \<and> \<not> contains ds ''precipitation''
        \<and> \<not> contains ds ''precip''"
  then have none: "var_name ds = None" using v by simp
  from h have ex: "path_exists e (path_join (DATA_DIR e) fn)"
    and op: "open_dataset e (path_join (DATA_DIR e) fn) = (Some ds, tr)" by simp_all
  show "extract_cloud_arrays e f32 fn b t = (Inl VariableNotFound, tr)"
    by (simp add: extract_cloud_arrays_opened [OF ex op] none)
  show "process_local_file e fn b = (Inl VariableNotFound, tr)"
    by (simp add: process_local_file_opened [OF ex op] none)
  show "get_sparse_cloud_data e rnd fn b t = (Inl VariableNotFound, tr)"
    by (simp add: get_sparse_cloud_data_opened [OF ex op] none)
qed

text \<open>
  The theorem at \<open>both.nc\<close>, which holds both names, and at \<open>novar.nc\<close>, which holds
  \<open>HQprecipitation\<close> only.
\<close>

theorem var_name_priority_witness:
  "contains ds_both ''precipitationCal'' \<and> contains ds_both ''precipitation''
   \<and> var_name ds_both = Some ''precipitationCal''
   \<and> path_exists (sample_env ''/data'' sel_raises) (path_join (DATA_DIR (sample_env ''/data'' sel_raises)) ''novar.nc'')
   \<and> open_dataset (sample_env ''/data'' sel_raises) (path_join (DATA_DIR (sample_env ''/data'' sel_raises)) ''novar.nc'')
       = (Some ds_novar, [OpenGrouped ''/data/novar.nc''])
   \<and> \<not> contains ds_novar ''precipitationCal'' \<and> \<not> contains ds_novar ''precipitation''
   \<and> \<not> contains ds_novar ''precip''
   \<and> extract_cloud_arrays (sample_env ''/data'' sel_raises) f32_sample ''novar.nc'' box_java 2
       = (Inl VariableNotFound, [OpenGrouped ''/data/novar.nc''])"
proof -
  let ?e = "sample_env ''/data'' sel_raises"
  have c: "contains ds_both ''precipitationCal'' \<and> contains ds_both ''precipitation''"
    by (simp add: contains_def ds_both_def)
  have n: "\<not> contains ds_novar ''precipitationCal'' \<and> \<not> contains ds_novar ''precipitation''
      \<and> \<not> contains ds_novar ''precip''"
    by (simp add: contains_def ds_novar_def)
  have ex: "path_exists ?e (path_join (DATA_DIR ?e) ''novar.nc'')"
    by (simp add: sample_env_def sample_exists_def path_join_def)
  have op: "open_dataset ?e (path_join (DATA_DIR ?e) ''novar.nc'')
       = (Some ds_novar, [OpenGrouped ''/data/novar.nc''])"
    by (simp add: sample_env_def open_dataset_def sample_open_grid_def path_join_def)
  have v: "var_name ds_both = Some ''precipitationCal''"
    using var_name_priority [of ds_both] c by simp
  have r: "extract_cloud_arrays ?e f32_sample ''novar.nc'' box_java 2
       = (Inl VariableNotFound, [OpenGrouped ''/data/novar.nc''])"
    using var_name_priority [of ds_novar ?e "''novar.nc''" "[OpenGrouped ''/data/novar.nc'']"
        f32_sample box_java 2] ex op n by blast
  from c v ex op n r show ?thesis by blast
qed

text \<open>
  Claim C9. With \<open>p\<close> the joined path: while \<open>p\<close> does not exist, each entry point raises
  \<open>FileNotFound\<close> and has made no open attempt; and it raises \<open>OpenFailure\<close> exactly when
  \<open>p\<close> exists and both the grouped and the flat open attempt fail, after one attempt of
  each kind.
\<close>

theorem not_found_before_open:
  assumes "p = path_join (DATA_DIR e) fn"
  shows "(\<not> path_exists e p
           \<longrightarrow> extract_cloud_arrays e f32 fn b t = (Inl FileNotFound, [])
             \<and> process_local_file e fn b = (Inl FileNotFound, [])
             \<and> get_sparse_cloud_data e rnd fn b t = (Inl FileNotFound, []))
       \<and> ((fst (extract_cloud_arrays e f32 fn b t) = Inl OpenFailure)
            = (path_exists e p \<and> open_grid e p = None \<and> open_flat e p = None))
       \<and> ((fst (process_local_file e fn b) = Inl OpenFailure)
            = (path_exists e p \<and> open_grid e p = None \<and> open_flat e p = None))
       \<and> ((fst (get_sparse_cloud_data e rnd fn b t) = Inl OpenFailure)
            = (path_exists e p \<and> open_grid e p = None \<and> open_flat e p = None))
       \<and> (path_exists e p \<and> open_grid e p = None \<and> open_flat e p = None
           \<longrightarrow> extract_cloud_arrays e f32 fn b t = (Inl OpenFailure, [OpenGrouped p, OpenFlat p]))"
proof (cases "path_exists e p")
  case False
  then show ?thesis
    using assms
    by (simp add: extract_cloud_arrays_def process_local_file_def get_sparse_cloud_data_def Let_def)
next
  case True
  note ex = True [unfolded assms]
  show ?thesis
  proof (cases "fst (open_dataset e p)")
    case None
    then have both: "open_grid e p = None \<and> open_flat e p = None"
      by (simp add: open_dataset_None)
    then have op: "open_dataset e p = (None, [OpenGrouped p, OpenFlat p])"
      by (simp add: open_dataset_def)
    show ?thesis
      using True both op assms
      by (simp add: extract_cloud_arrays_def process_local_file_def get_sparse_cloud_data_def Let_def)
  next
    case (Some ds)
    then obtain tr where op: "open_dataset e p = (Some ds, tr)"
      by (cases "open_dataset e p") simp
    from Some have nb: "\<not> (open_grid e p = None \<and> open_flat e p = None)"
      using open_dataset_None [of e p] by simp
    note op' = op [unfolded assms]
    show ?thesis
      using True nb
        extract_cloud_arrays_not_open_failure [OF ex op', of f32 b t]
        process_local_file_not_open_failure [OF ex op', of b]
        get_sparse_cloud_data_not_open_failure [OF ex op', of rnd b t]
      unfolding assms by blast
  qed
qed

text \<open>
  The theorem at a name that is not in the sample directory, and at \<open>bad.nc\<close>, which
  exists and opens in neither layout.
\<close>

theorem not_found_before_open_witness:
  "''/data/zzz.nc'' = path_join (DATA_DIR (sample_env ''/data'' sel_raises)) ''zzz.nc''
   \<and> \<not> path_exists (sample_env ''/data'' sel_raises) ''/data/zzz.nc''
   \<and> extract_cloud_arrays (sample_env ''/data'' sel_raises) f32_sample ''zzz.nc'' box_java 2
       = (Inl FileNotFound, [])
   \<and> ''/data/bad.nc'' = path_join (DATA_DIR (sample_env ''/data'' sel_raises)) ''bad.nc''
   \<and> path_exists (sample_env ''/data'' sel_raises) ''/data/bad.nc''
   \<and> open_grid (sample_env ''/data'' sel_raises) ''/data/bad.nc'' = None
   \<and> open_flat (sample_env ''/data'' sel_raises) ''/data/bad.nc'' = None
   \<and> extract_cloud_arrays (sample_env ''/data'' sel_raises) f32_sample ''bad.nc'' box_java 2
       = (Inl OpenFailure, [OpenGrouped ''/data/bad.nc'', OpenFlat ''/data/bad.nc''])"
proof -
  let ?e = "sample_env ''/data'' sel_raises"
  have p1: "''/data/zzz.nc'' = path_join (DATA_DIR ?e) ''zzz.nc''"
    by (simp add: sample_env_def path_join_def)
  have n1: "\<not> path_exists ?e ''/data/zzz.nc''"
    by (simp add: sample_env_def sample_exists_def)
  have p2: "''/data/bad.nc'' = path_join (DATA_DIR ?e) ''bad.nc''"
    by (simp add: sample_env_def path_join_def)
  have h2: "path_exists ?e ''/data/bad.nc'' \<and> open_grid ?e ''/data/bad.nc'' = None
      \<and> open_flat ?e ''/data/bad.nc'' = None"
    by (simp add: sample_env_def sample_exists_def sample_open_grid_def sample_open_flat_def)
  have r1: "extract_cloud_arrays ?e f32_sample ''zzz.nc'' box_java 2 = (Inl FileNotFound, [])"
    using not_found_before_open [OF p1, of f32_sample box_java 2] n1 by blast
  have r2: "extract_cloud_arrays ?e f32_sample ''bad.nc'' box_java 2
       = (Inl OpenFailure, [OpenGrouped ''/data/bad.nc'', OpenFlat ''/data/bad.nc''])"
    using not_found_before_open [OF p2, of f32_sample box_java 2] h2 by blast
  from p1 n1 r1 p2 h2 r2 show ?thesis by blast
qed

section \<open>File listing\<close>

lemma endswith_iff: "endswith s suf = (\<exists>p. s = p @ suf)"
proof
  assume "endswith s suf"
  then have "s = take (length s - length suf) s @ suf"
    by (simp add: endswith_def)
       (metis append_take_drop_id)
  then show "\<exists>p. s = p @ suf" ..
next
  assume "\<exists>p. s = p @ suf"
  then show "endswith s suf" by (auto simp add: endswith_def)
qed

text \<open>
  Claim C10, as the code has it. \<^verbatim>\<open>list_available_files\<close> returns the empty list when the
  data directory does not exist; when it exists and \<^verbatim>\<open>os.listdir\<close> returns its entries, the
  result is exactly the entries whose names end with \<open>.HDF5\<close>, \<open>.nc\<close> or \<open>.nc4\<close>, in the
  order of the listing; and it raises exactly when the path exists and \<^verbatim>\<open>os.listdir\<close>
  raises, which nothing in the function catches.
\<close>

theorem list_available_files_cases:
  "(\<not> path_exists e (DATA_DIR e) \<longrightarrow> list_available_files e = Inr [])
   \<and> (path_exists e (DATA_DIR e) \<and> listdir e (DATA_DIR e) = Some fs
       \<longrightarrow> list_available_files e
            = Inr (filter (\<lambda>f. (\<exists>p. f = p @ ''.HDF5'') \<or> (\<exists>p. f = p @ ''.nc'')
                               \<or> (\<exists>p. f = p @ ''.nc4'')) fs))
   \<and> ((\<exists>x. list_available_files e = Inl x)
        = (path_exists e (DATA_DIR e) \<and> listdir e (DATA_DIR e) = None))"
  by (auto simp add: list_available_files_def extensions_def endswith_iff split: option.splits)

text \<open>
  The theorem at the sample directory \<open>/data\<close>: of its six entries, \<open>a.nc\<close>, \<open>b.HDF5\<close> and
  \<open>c.nc4\<close> are listed; \<open>d.hdf5\<close> is not, the test being case-sensitive.
\<close>

theorem list_available_files_cases_witness:
  "path_exists (sample_env ''/data'' sel_raises) (DATA_DIR (sample_env ''/data'' sel_raises))
   \<and> listdir (sample_env ''/data'' sel_raises) (DATA_DIR (sample_env ''/data'' sel_raises))
       = Some [''a.nc'', ''notes.txt'', ''b.HDF5'', ''c.nc4'', ''d.hdf5'', ''nc'']
   \<and> list_available_files (sample_env ''/data'' sel_raises)
       = Inr (filter (\<lambda>f. (\<exists>p. f = p @ ''.HDF5'') \<or> (\<exists>p. f = p @ ''.nc'') \<or> (\<exists>p. f = p @ ''.nc4''))
               [''a.nc'', ''notes.txt'', ''b.HDF5'', ''c.nc4'', ''d.hdf5'', ''nc''])
   \<and> list_available_files (sample_env ''/data'' sel_raises) = Inr [''a.nc'', ''b.HDF5'', ''c.nc4'']
   \<and> \<not> path_exists (sample_env ''/nowhere'' sel_raises) (DATA_DIR (sample_env ''/nowhere'' sel_raises))
   \<and> list_available_files (sample_env ''/nowhere'' sel_raises) = Inr []"
proof -
  let ?e = "sample_env ''/data'' sel_raises"
  let ?n = "sample_env ''/nowhere'' sel_raises"
  have ex: "path_exists ?e (DATA_DIR ?e)"
    by (simp add: sample_env_def sample_exists_def)
  have ls: "listdir ?e (DATA_DIR ?e) = Some [''a.nc'', ''notes.txt'', ''b.HDF5'', ''c.nc4'', ''d.hdf5'', ''nc'']"
    by (simp add: sample_env_def sample_listdir_def)
  have nx: "\<not> path_exists ?n (DATA_DIR ?n)"
    by (simp add: sample_env_def sample_exists_def)
  have r1: "list_available_files ?e
       = Inr (filter (\<lambda>f. (\<exists>p. f = p @ ''.HDF5'') \<or> (\<exists>p. f = p @ ''.nc'') \<or> (\<exists>p. f = p @ ''.nc4''))
               [''a.nc'', ''notes.txt'', ''b.HDF5'', ''c.nc4'', ''d.hdf5'', ''nc''])"
    using list_available_files_cases [of ?e] ex ls by blast
  have r2: "list_available_files ?e = Inr [''a.nc'', ''b.HDF5'', ''c.nc4'']"
    by code_simp
  have r3: "list_available_files ?n = Inr []"
    using list_available_files_cases [of ?n] nx by blast
  from ex ls r1 r2 nx r3 show ?thesis by blast
qed

text \<open>
  The data directory configured as \<open>/data/notes.txt\<close>, a regular file: the path exists,
  \<^verbatim>\<open>os.listdir\<close> raises, and so does \<^verbatim>\<open>list_available_files\<close>.
\<close>

theorem list_available_files_raises_counterexample:
  "path_exists (sample_env ''/data/notes.txt'' sel_raises) (DATA_DIR (sample_env ''/data/notes.txt'' sel_raises))
   \<and> listdir (sample_env ''/data/notes.txt'' sel_raises) (DATA_DIR (sample_env ''/data/notes.txt'' sel_raises)) = None
   \<and> list_available_files (sample_env ''/data/notes.txt'' sel_raises) = Inl OSError"
  by (simp add: list_available_files_def sample_env_def sample_exists_def sample_listdir_def)

section \<open>Corner-swapped boxes crop alike\<close>

lemma slices_swap:
  "lat_slice (swap_tb b) = lat_slice b" "lon_slice (swap_tb b) = lon_slice b"
  "lat_slice (swap_lr b) = lat_slice b" "lon_slice (swap_lr b) = lon_slice b"
  by (simp_all add: lat_slice_def lon_slice_def swap_tb_def swap_lr_def min.commute max.commute)

lemma same_slices:
  assumes "lat_slice b' = lat_slice b" "lon_slice b' = lon_slice b"
  shows "crop_or_full e ds vn latn lonn b' = crop_or_full e ds vn latn lonn b"
    and "crop_sel e ds latn lonn b' = crop_sel e ds latn lonn b"
    and "extract_cloud_arrays e f32 fn b' t = extract_cloud_arrays e f32 fn b t"
    and "process_local_file e fn b' = process_local_file e fn b"
    and "get_sparse_cloud_data e rnd fn b' t = get_sparse_cloud_data e rnd fn b t"
proof -
  show "crop_or_full e ds vn latn lonn b' = crop_or_full e ds vn latn lonn b"
    unfolding crop_or_full_def assms ..
  show "crop_sel e ds latn lonn b' = crop_sel e ds latn lonn b"
    unfolding crop_sel_def assms ..
  show "extract_cloud_arrays e f32 fn b' t = extract_cloud_arrays e f32 fn b t"
    unfolding extract_cloud_arrays_def crop_or_full_def assms ..
  show "process_local_file e fn b' = process_local_file e fn b"
    unfolding process_local_file_def crop_or_full_def assms ..
  show "get_sparse_cloud_data e rnd fn b' t = get_sparse_cloud_data e rnd fn b t"
    unfolding get_sparse_cloud_data_def crop_sel_def assms ..
qed

text \<open>
  Claim C6. The two slices are built from the minimum and the maximum of the two edges of
  their axis, so swapping top and bottom, or left and right, or both, changes neither
  slice, and the croppers and the three entry points return the same result.
\<close>

theorem crop_corner_swap:
  "lat_slice b = (min (bottomlat b) (toplat b), max (bottomlat b) (toplat b))
   \<and> lon_slice b = (min (leftlon b) (rightlon b), max (leftlon b) (rightlon b))
   \<and> crop_or_full e ds vn latn lonn (swap_tb b) = crop_or_full e ds vn latn lonn b
   \<and> crop_or_full e ds vn latn lonn (swap_lr b) = crop_or_full e ds vn latn lonn b
   \<and> crop_or_full e ds vn latn lonn (swap_tb (swap_lr b)) = crop_or_full e ds vn latn lonn b
   \<and> crop_sel e ds latn lonn (swap_tb b) = crop_sel e ds latn lonn b
   \<and> crop_sel e ds latn lonn (swap_lr b) = crop_sel e ds latn lonn b
   \<and> crop_sel e ds latn lonn (swap_tb (swap_lr b)) = crop_sel e ds latn lonn b
   \<and> extract_cloud_arrays e f32 fn (swap_tb b) t = extract_cloud_arrays e f32 fn b t
   \<and> extract_cloud_arrays e f32 fn (swap_lr b) t = extract_cloud_arrays e f32 fn b t
   \<and> extract_cloud_arrays e f32 fn (swap_tb (swap_lr b)) t = extract_cloud_arrays e f32 fn b t
   \<and> process_local_file e fn (swap_tb b) = process_local_file e fn b
   \<and> process_local_file e fn (swap_lr b) = process_local_file e fn b
   \<and> process_local_file e fn (swap_tb (swap_lr b)) = process_local_file e fn b
   \<and> get_sparse_cloud_data e rnd fn (swap_tb b) t = get_sparse_cloud_data e rnd fn b t
   \<and> get_sparse_cloud_data e rnd fn (swap_lr b) t = get_sparse_cloud_data e rnd fn b t
   \<and> get_sparse_cloud_data e rnd fn (swap_tb (swap_lr b)) t = get_sparse_cloud_data e rnd fn b t"
proof -
  have tb: "lat_slice (swap_tb b) = lat_slice b" "lon_slice (swap_tb b) = lon_slice b"
    by (rule slices_swap)+
  have lr: "lat_slice (swap_lr b) = lat_slice b" "lon_slice (swap_lr b) = lon_slice b"
    by (rule slices_swap)+
  have both: "lat_slice (swap_tb (swap_lr b)) = lat_slice b"
    "lon_slice (swap_tb (swap_lr b)) = lon_slice b"
    by (simp_all add: slices_swap)
  show ?thesis
    by (simp add: same_slices [OF tb] same_slices [OF lr] same_slices [OF both])
      (simp add: lat_slice_def lon_slice_def)
qed

section \<open>Release of the dataset\<close>

lemma closes_open_dataset: "open_dataset e p = (r, tr) \<Longrightarrow> closes tr = 0"
  by (auto simp add: open_dataset_def closes_def split: option.splits)

lemma closes_snoc: "closes (tr @ [Close]) = closes tr + 1"
  by (simp add: closes_def)

lemma closes_extract_cloud_arrays:
  "closes (snd (extract_cloud_arrays e f32 fn b t))
     = (case fst (extract_cloud_arrays e f32 fn b t) of Inl x \<Rightarrow> 0 | Inr r \<Rightarrow> 1)"
proof (cases "path_exists e (path_join (DATA_DIR e) fn)")
  case False
  then show ?thesis by (simp add: extract_cloud_arrays_def closes_def)
next
  case True
  obtain r tr where op: "open_dataset e (path_join (DATA_DIR e) fn) = (r, tr)"
    by (cases "open_dataset e (path_join (DATA_DIR e) fn)")
  note z = closes_open_dataset [OF op]
  show ?thesis
  proof (cases r)
    case None
    with True op z show ?thesis by (simp add: extract_cloud_arrays_def)
  next
    case (Some ds)
    show ?thesis
      unfolding extract_cloud_arrays_opened [OF True op [unfolded Some]]
      using z by (auto simp add: closes_snoc split: option.splits sum.splits)
  qed
qed

lemma closes_process_local_file:
  "closes (snd (process_local_file e fn b))
     = (case fst (process_local_file e fn b) of Inl x \<Rightarrow> 0 | Inr r \<Rightarrow> 1)"
proof (cases "path_exists e (path_join (DATA_DIR e) fn)")
  case False
  then show ?thesis by (simp add: process_local_file_def closes_def)
next
  case True
  obtain r tr where op: "open_dataset e (path_join (DATA_DIR e) fn) = (r, tr)"
    by (cases "open_dataset e (path_join (DATA_DIR e) fn)")
  note z = closes_open_dataset [OF op]
  show ?thesis
  proof (cases r)
    case None
    with True op z show ?thesis by (simp add: process_local_file_def)
  next
    case (Some ds)
    show ?thesis
      unfolding process_local_file_opened [OF True op [unfolded Some]]
      using z by (auto simp add: closes_snoc split: option.splits sum.splits)
  qed
qed

lemma closes_get_sparse_cloud_data:
  "closes (snd (get_sparse_cloud_data e rnd fn b t))
     = (case fst (get_sparse_cloud_data e rnd fn b t) of Inl x \<Rightarrow> 0 | Inr r \<Rightarrow> 1)"
proof (cases "path_exists e (path_join (DATA_DIR e) fn)")
  case False
  then show ?thesis by (simp add: get_sparse_cloud_data_def closes_def)
next
  case True
  obtain r tr where op: "open_dataset e (path_join (DATA_DIR e) fn) = (r, tr)"
    by (cases "open_dataset e (path_join (DATA_DIR e) fn)")
  note z = closes_open_dataset [OF op]
  show ?thesis
  proof (cases r)
    case None
    with True op z show ?thesis by (simp add: get_sparse_cloud_data_def)
  next
    case (Some ds)
    show ?thesis
      unfolding get_sparse_cloud_data_opened [OF True op [unfolded Some]]
      using z by (auto simp add: closes_snoc split: option.splits sum.splits)
  qed
qed

lemma sample_novar:
  "path_exists (sample_env ''/data'' s) (path_join (DATA_DIR (sample_env ''/data'' s)) ''novar.nc'')"
  "open_dataset (sample_env ''/data'' s) (path_join (DATA_DIR (sample_env ''/data'' s)) ''novar.nc'')
     = (Some ds_novar, [OpenGrouped ''/data/novar.nc''])"
  "var_name ds_novar = None"
  by (simp_all add: sample_env_def sample_exists_def path_join_def open_dataset_def
      sample_open_grid_def var_name_def candidates_def contains_def ds_novar_def)

text \<open>
  Claim C2, on the code. Each entry point calls \<^verbatim>\<open>ds.close()\<close> once, as its last statement
  before \<^verbatim>\<open>return\<close>, outside any \<^verbatim>\<open>try/finally\<close> or \<^verbatim>\<open>with\<close>: the dataset is closed once
  when the function returns and never when it raises. At \<open>novar.nc\<close>, which opens and holds
  none of the candidate variables, the three entry points raise \<open>VariableNotFound\<close> with
  the dataset opened and not closed.
\<close>

theorem close_only_on_success:
  "closes (snd (extract_cloud_arrays e f32 fn b t))
     = (case fst (extract_cloud_arrays e f32 fn b t) of Inl x \<Rightarrow> 0 | Inr r \<Rightarrow> 1)
   \<and> closes (snd (process_local_file e fn b))
     = (case fst (process_local_file e fn b) of Inl x \<Rightarrow> 0 | Inr r \<Rightarrow> 1)
   \<and> closes (snd (get_sparse_cloud_data e rnd fn b t))
     = (case fst (get_sparse_cloud_data e rnd fn b t) of Inl x \<Rightarrow> 0 | Inr r \<Rightarrow> 1)
   \<and> extract_cloud_arrays (sample_env ''/data'' sel_raises) f32_sample ''novar.nc'' box_java 2
     = (Inl VariableNotFound, [OpenGrouped ''/data/novar.nc''])
   \<and> process_local_file (sample_env ''/data'' sel_raises) ''novar.nc'' box_java
     = (Inl VariableNotFound, [OpenGrouped ''/data/novar.nc''])
   \<and> get_sparse_cloud_data (sample_env ''/data'' sel_raises) rnd ''novar.nc'' box_java 2
     = (Inl VariableNotFound, [OpenGrouped ''/data/novar.nc''])
   \<and> closes [OpenGrouped ''/data/novar.nc''] = 0"
proof (intro conjI)
  show "extract_cloud_arrays (sample_env ''/data'' sel_raises) f32_sample ''novar.nc'' box_java 2
     = (Inl VariableNotFound, [OpenGrouped ''/data/novar.nc''])"
    by (simp add: extract_cloud_arrays_opened [OF sample_novar(1,2)] sample_novar(3))
  show "process_local_file (sample_env ''/data'' sel_raises) ''novar.nc'' box_java
     = (Inl VariableNotFound, [OpenGrouped ''/data/novar.nc''])"
    by (simp add: process_local_file_opened [OF sample_novar(1,2)] sample_novar(3))
  show "get_sparse_cloud_data (sample_env ''/data'' sel_raises) rnd ''novar.nc'' box_java 2
     = (Inl VariableNotFound, [OpenGrouped ''/data/novar.nc''])"
    by (simp add: get_sparse_cloud_data_opened [OF sample_novar(1,2)] sample_novar(3))
  show "closes [OpenGrouped ''/data/novar.nc''] = 0"
    by (simp add: closes_def)
qed (rule closes_extract_cloud_arrays closes_process_local_file closes_get_sparse_cloud_data)+

section \<open>Empty selections\<close>

lemma sample_a:
  "path_exists (sample_env ''/data'' s) (path_join (DATA_DIR (sample_env ''/data'' s)) ''a.nc'')"
  "open_dataset (sample_env ''/data'' s) (path_join (DATA_DIR (sample_env ''/data'' s)) ''a.nc'')
     = (Some ds_lonlat, [OpenGrouped ''/data/a.nc''])"
  "var_name ds_lonlat = Some ''precipitation''"
  "coord_name ''lat'' ds_lonlat = ''lat''"
  "coord_name ''lon'' ds_lonlat = ''lon''"
  by (simp_all add: sample_env_def sample_exists_def path_join_def open_dataset_def
      sample_open_grid_def var_name_def candidates_def contains_def ds_lonlat_def
      coord_name_def lower_def lower_char_def)

text \<open>
  Claim C3, on the code. \<^verbatim>\<open>_extract_cloud_arrays\<close> and \<^verbatim>\<open>process_local_file\<close> fall back
  to the full dataset when the selection raises or the selected variable has no element;
  \<^verbatim>\<open>get_sparse_cloud_data\<close> has the \<^verbatim>\<open>except\<close> only and keeps an empty selection. At
  \<open>a.nc\<close> with a box outside its grid, for which \<^verbatim>\<open>ds.sel\<close> returns the empty selection:
  the cropper of \<^verbatim>\<open>get_sparse_cloud_data\<close> returns that selection, of size 0, and the
  function raises at \<^verbatim>\<open>np.max\<close>; the cropper of the other two returns the full dataset,
  and \<^verbatim>\<open>process_local_file\<close> returns the full grid.
\<close>

theorem empty_selection_not_recovered:
  "sel (sample_env ''/data'' sel_outside) ds_lonlat ''lat'' (lat_slice box_java) ''lon'' (lon_slice box_java)
     = Some ds_empty
   \<and> getitem ds_empty ''precipitation'' = Inr \<lparr>shape = [1, 0, 0], flat = []\<rparr>
   \<and> size_nd \<lparr>shape = [1, 0, 0], flat = [] :: cell list\<rparr> = 0
   \<and> crop_sel (sample_env ''/data'' sel_outside) ds_lonlat ''lat'' ''lon'' box_java = ds_empty
   \<and> ds_empty \<noteq> ds_lonlat
   \<and> get_sparse_cloud_data (sample_env ''/data'' sel_outside) rnd ''a.nc'' box_java 2
     = (Inl ValueError, [OpenGrouped ''/data/a.nc''])
   \<and> crop_or_full (sample_env ''/data'' sel_outside) ds_lonlat ''precipitation'' ''lat'' ''lon'' box_java
     = ds_lonlat
   \<and> process_local_file (sample_env ''/data'' sel_outside) ''a.nc'' box_java
     = (Inr (array1 (map Num [10, 11]), array1 (map Num [100, 101, 102]), \<lparr>shape = [2, 3], flat = map Num [1, 2, 3, 5, 6, 7]\<rparr>),
        [OpenGrouped ''/data/a.nc'', Close])"
proof (intro conjI)
  show "sel (sample_env ''/data'' sel_outside) ds_lonlat ''lat'' (lat_slice box_java) ''lon'' (lon_slice box_java)
     = Some ds_empty"
    by (simp add: sample_env_def sel_outside_def)
  show "getitem ds_empty ''precipitation'' = Inr \<lparr>shape = [1, 0, 0], flat = []\<rparr>"
    by (simp add: getitem_def ds_empty_def)
  show "size_nd \<lparr>shape = [1, 0, 0], flat = [] :: cell list\<rparr> = 0"
    by (simp add: size_nd_def)
  show c: "crop_sel (sample_env ''/data'' sel_outside) ds_lonlat ''lat'' ''lon'' box_java = ds_empty"
    by (simp add: crop_sel_def sample_env_def sel_outside_def)
  show "ds_empty \<noteq> ds_lonlat"
    by (simp add: ds_empty_def ds_lonlat_def)
  have g: "extract_grid ds_empty ''precipitation'' ''lat'' ''lon''
      = Inr (array1 [], array1 [], \<lparr>shape = [0, 0], flat = []\<rparr>)"
    by code_simp
  show "get_sparse_cloud_data (sample_env ''/data'' sel_outside) rnd ''a.nc'' box_java 2
     = (Inl ValueError, [OpenGrouped ''/data/a.nc''])"
    by (simp add: get_sparse_cloud_data_opened [OF sample_a(1,2)] sample_a(3,4,5) c g
        np_where_gt_def index0_def array1_def np_max_def)
  show "crop_or_full (sample_env ''/data'' sel_outside) ds_lonlat ''precipitation'' ''lat'' ''lon'' box_java
     = ds_lonlat"
    by (simp add: crop_or_full_def sample_env_def sel_outside_def getitem_def ds_empty_def size_nd_def)
  show "process_local_file (sample_env ''/data'' sel_outside) ''a.nc'' box_java
     = (Inr (array1 (map Num [10, 11]), array1 (map Num [100, 101, 102]), \<lparr>shape = [2, 3], flat = map Num [1, 2, 3, 5, 6, 7]\<rparr>),
        [OpenGrouped ''/data/a.nc'', Close])"
    by code_simp
qed

section \<open>Binary payload\<close>

lemma read_u32_le32: "read_u32 (le32 w @ rest) = Some (w, rest)"
proof -
  have "ucast (ucast w :: byte) OR push_bit 8 (ucast (ucast (drop_bit 8 w) :: byte))
          OR push_bit 16 (ucast (ucast (drop_bit 16 w) :: byte))
          OR push_bit 24 (ucast (ucast (drop_bit 24 w) :: byte)) = w"
  proof (rule bit_word_eqI)
    fix n assume n: "n < LENGTH(32)"
    consider "n < 8" | "8 \<le> n" "n < 16" | "16 \<le> n" "n < 24" | "24 \<le> n"
      by linarith
    then show "bit (ucast (ucast w :: byte) OR push_bit 8 (ucast (ucast (drop_bit 8 w) :: byte))
          OR push_bit 16 (ucast (ucast (drop_bit 16 w) :: byte))
          OR push_bit 24 (ucast (ucast (drop_bit 24 w) :: byte)) :: 32 word) n = bit w n"
      using n by cases (auto simp add: bit_simps)
  qed
  then show ?thesis by (simp add: le32_def)
qed

lemma length_le32: "length (le32 w) = 4"
  by (simp add: le32_def)

lemma length_tobytes: "length (tobytes ws) = 4 * length ws"
  by (induction ws) (simp_all add: tobytes_def length_le32)

lemma read_f32s_tobytes: "read_f32s (length ws) (tobytes ws @ rest) = Some (ws, rest)"
  by (induction ws) (simp_all add: tobytes_def read_u32_le32)

lemma le32_digits:
  "map unat (le32 w)
     = [unat w mod 256, unat w div 256 mod 256, unat w div 65536 mod 256,
        unat w div 16777216 mod 256]"
  by (simp add: le32_def unsigned_ucast_eq take_bit_eq_mod drop_bit_eq_div unat_div_distrib)

lemma unat_count: "n < 2 ^ 32 \<Longrightarrow> unat (of_nat n :: 32 word) = n"
  by (simp add: unat_of_nat)

lemma payload_parts:
  assumes "length hc = 4" "length hm = 4" "length a = k" "length b = k"
  shows "length ((hc @ hm) @ a @ b @ c) = 8 + 2 * k + length c"
    and "take 4 ((hc @ hm) @ a @ b @ c) = hc"
    and "take 4 (drop 4 ((hc @ hm) @ a @ b @ c)) = hm"
    and "take k (drop 8 ((hc @ hm) @ a @ b @ c)) = a"
    and "take k (drop (8 + k) ((hc @ hm) @ a @ b @ c)) = b"
    and "drop (8 + 2 * k) ((hc @ hm) @ a @ b @ c) = c"
  using assms by simp_all

text \<open>
  Claim C4. For parallel sequences of \<open>count\<close> float32 values, with \<open>count\<close> in the range
  of an unsigned 32-bit integer and \<open>max_val\<close> in the range of binary32, the binary
  payload exists and is \<open>8 + 12 * count\<close> bytes long: bytes 0 to 3 are the count, least
  significant byte first; bytes 4 to 7 the maximum; then the latitudes, the longitudes and
  the values, \<open>4 * count\<close> bytes each, with nothing between or after them. The reader that
  takes the count from the header and reads that many values three times gets the point
  set back and consumes every byte.
\<close>

theorem bin_payload_layout:
  assumes "length lats = length vals" "length lons = length vals"
    and "length vals < 2 ^ 32" "pack_f max_val = Some w"
  shows "\<exists>bs. bin_payload pack_f lats lons vals max_val = Inr bs
       \<and> length bs = 8 + 12 * length vals
       \<and> map unat (take 4 bs)
           = [length vals mod 256, length vals div 256 mod 256,
              length vals div 65536 mod 256, length vals div 16777216 mod 256]
       \<and> take 4 (drop 4 bs) = le32 w
       \<and> take (4 * length vals) (drop 8 bs) = tobytes lats
       \<and> take (4 * length vals) (drop (8 + 4 * length vals) bs) = tobytes lons
       \<and> drop (8 + 8 * length vals) bs = tobytes vals
       \<and> decode_bin bs = Some (length vals, w, lats, lons, vals)"
proof -
  define c :: "32 word" where "c = of_nat (length vals)"
  define k where "k = 4 * length vals"
  define bs where "bs = (le32 c @ le32 w) @ tobytes lats @ tobytes lons @ tobytes vals"
  have uc: "unat c = length vals"
    unfolding c_def using assms(3) by (rule unat_count)
  have la: "length (tobytes lats) = k" and lo: "length (tobytes lons) = k"
    and lv: "length (tobytes vals) = k"
    by (simp_all add: length_tobytes k_def assms(1,2))
  note parts = payload_parts [OF length_le32 length_le32 la lo, of c w "tobytes vals",
      folded bs_def]
  have run: "bin_payload pack_f lats lons vals max_val = Inr bs"
    using assms(3,4) by (simp add: bin_payload_def struct_pack_If_def bs_def c_def)
  have len: "length bs = 8 + 12 * length vals"
    using parts(1) by (simp add: lv k_def)
  have count: "map unat (take 4 bs)
           = [length vals mod 256, length vals div 256 mod 256,
              length vals div 65536 mod 256, length vals div 16777216 mod 256]"
    unfolding parts(2) le32_digits uc ..
  have p5: "take (4 * length vals) (drop (8 + 4 * length vals) bs) = tobytes lons"
    using parts(5) by (simp only: k_def)
  have p6: "drop (8 + 8 * length vals) bs = tobytes vals"
    using parts(6) by (simp add: k_def)
  have r1: "read_f32s (length vals) (tobytes lats @ tobytes lons @ tobytes vals)
      = Some (lats, tobytes lons @ tobytes vals)"
    using read_f32s_tobytes [of lats] by (simp only: assms(1))
  have r2: "read_f32s (length vals) (tobytes lons @ tobytes vals) = Some (lons, tobytes vals)"
    using read_f32s_tobytes [of lons] by (simp only: assms(2))
  have r3: "read_f32s (length vals) (tobytes vals) = Some (vals, [])"
    using read_f32s_tobytes [of vals "[]"] by simp
  have bs': "bs = le32 c @ le32 w @ tobytes lats @ tobytes lons @ tobytes vals"
    by (simp add: bs_def)
  have dec: "decode_bin bs = Some (length vals, w, lats, lons, vals)"
    unfolding decode_bin_def bs' by (simp add: read_u32_le32 uc r1 r2 r3)
  show ?thesis
  proof (intro exI conjI)
    show "bin_payload pack_f lats lons vals max_val = Inr bs" by (rule run)
    show "length bs = 8 + 12 * length vals" by (rule len)
    show "map unat (take 4 bs)
           = [length vals mod 256, length vals div 256 mod 256,
              length vals div 65536 mod 256, length vals div 16777216 mod 256]" by (rule count)
    show "take 4 (drop 4 bs) = le32 w" by (rule parts(3))
    show "take (4 * length vals) (drop 8 bs) = tobytes lats"
      using parts(4) by (simp only: k_def)
    show "take (4 * length vals) (drop (8 + 4 * length vals) bs) = tobytes lons" by (rule p5)
    show "drop (8 + 8 * length vals) bs = tobytes vals" by (rule p6)
    show "decode_bin bs = Some (length vals, w, lats, lons, vals)" by (rule dec)
  qed
qed

text \<open>
  The theorem at the four points of the sample grid above threshold 2: a payload of
  \<open>8 + 12 * 4 = 56\<close> bytes that starts with the count 4 and decodes to the point set. It
  is the body of the response of the handler for \<open>a.nc\<close>.
\<close>

theorem bin_payload_layout_witness:
  "length [0x41200000, 0x41300000, 0x41300000, 0x41300000 :: float32]
     = length [0x40400000, 0x40A00000, 0x40C00000, 0x40E00000 :: float32]
   \<and> length [0x42CC0000, 0x42C80000, 0x42CA0000, 0x42CC0000 :: float32]
     = length [0x40400000, 0x40A00000, 0x40C00000, 0x40E00000 :: float32]
   \<and> length [0x40400000, 0x40A00000, 0x40C00000, 0x40E00000 :: float32] < 2 ^ 32
   \<and> pack_f_sample (Num 7) = Some 0x40E00000
   \<and> (\<exists>bs. bin_payload pack_f_sample [0x41200000, 0x41300000, 0x41300000, 0x41300000]
              [0x42CC0000, 0x42C80000, 0x42CA0000, 0x42CC0000]
              [0x40400000, 0x40A00000, 0x40C00000, 0x40E00000] (Num 7) = Inr bs
          \<and> length bs = 56
          \<and> map unat (take 4 bs) = [4, 0, 0, 0]
          \<and> decode_bin bs
              = Some (4, 0x40E00000, [0x41200000, 0x41300000, 0x41300000, 0x41300000],
                      [0x42CC0000, 0x42C80000, 0x42CA0000, 0x42CC0000],
                      [0x40400000, 0x40A00000, 0x40C00000, 0x40E00000])
          \<and> get_gpm_data_bin (sample_env ''/data'' sel_raises) f32_sample pack_f_sample
                ''a.nc'' box_java 2 = Response200 bs)"
proof -
  let ?la = "[0x41200000, 0x41300000, 0x41300000, 0x41300000] :: float32 list"
  let ?lo = "[0x42CC0000, 0x42C80000, 0x42CA0000, 0x42CC0000] :: float32 list"
  let ?va = "[0x40400000, 0x40A00000, 0x40C00000, 0x40E00000] :: float32 list"
  have h1: "length ?la = length ?va" by simp
  have h2: "length ?lo = length ?va" by simp
  have h3: "length ?va < 2 ^ 32" by simp
  have h4: "pack_f_sample (Num 7) = Some 0x40E00000"
    by (simp add: pack_f_sample_def f32_sample_def)
  have ext: "fst (extract_cloud_arrays (sample_env ''/data'' sel_raises) f32_sample ''a.nc'' box_java 2)
      = Inr (\<lparr>shape = [4], flat = ?la\<rparr>, \<lparr>shape = [4], flat = ?lo\<rparr>, ?va, Num 7)"
    by code_simp
  from bin_payload_layout [of ?la ?va ?lo pack_f_sample "Num 7" "0x40E00000", OF h1 h2 h3 h4]
  obtain bs where bs: "bin_payload pack_f_sample ?la ?lo ?va (Num 7) = Inr bs"
    and l: "length bs = 8 + 12 * length ?va"
    and c: "map unat (take 4 bs) = [length ?va mod 256, length ?va div 256 mod 256,
              length ?va div 65536 mod 256, length ?va div 16777216 mod 256]"
    and d: "decode_bin bs = Some (length ?va, 0x40E00000, ?la, ?lo, ?va)"
    by (elim exE conjE) (rule that; assumption)
  have run: "get_gpm_data_bin (sample_env ''/data'' sel_raises) f32_sample pack_f_sample
                ''a.nc'' box_java 2 = Response200 bs"
    by (simp add: get_gpm_data_bin_def ext bs)
  from l have l': "length bs = 56" by simp
  from c have c': "map unat (take 4 bs) = [4, 0, 0, 0]" by simp
  from d have d': "decode_bin bs = Some (4, 0x40E00000, ?la, ?lo, ?va)" by simp
  show ?thesis
  proof (intro conjI exI)
    show "length ?la = length ?va" by (rule h1)
    show "length ?lo = length ?va" by (rule h2)
    show "length ?va < 2 ^ 32" by (rule h3)
    show "pack_f_sample (Num 7) = Some 0x40E00000" by (rule h4)
    show "bin_payload pack_f_sample ?la ?lo ?va (Num 7) = Inr bs" by (rule bs)
    show "length bs = 56" by (rule l')
    show "map unat (take 4 bs) = [4, 0, 0, 0]" by (rule c')
    show "decode_bin bs = Some (4, 0x40E00000, ?la, ?lo, ?va)" by (rule d')
    show "get_gpm_data_bin (sample_env ''/data'' sel_raises) f32_sample pack_f_sample
                ''a.nc'' box_java 2 = Response200 bs" by (rule run)
  qed
qed

end
